theory Spec2Isabelle
  imports Complex_Main "HOL-Library.Sublist"
begin

section \<open>Python values and dictionaries\<close>

text \<open>
  Citation facts and evidence are open Python dictionaries from fact names to values.
  The callers store \<open>None\<close>, booleans, integers and strings, and the workflow also stores
  nested dictionaries (the answers to follow-up questions). The program uses a value in two
  ways only: it tests its truth value, and it writes it into an f-string, which gives the
  text of \<open>str(value)\<close>. A value of any other type (a nested dictionary, a list, a float)
  is therefore \<open>PObj\<close> with its truth value and its \<open>str\<close> text. A dictionary is an
  association list in insertion order (the order \<open>items()\<close> iterates in); \<open>get\<close> is the
  lookup that answers \<open>None\<close> for a missing key. Strings are lists of 8-bit characters;
  the case conversions act on the ASCII letters.
\<close>

datatype pyval = PNone | PBool bool | PInt int | PStr string | PObj bool string

fun truthy :: "pyval \<Rightarrow> bool" where
  "truthy PNone = False"
| "truthy (PBool b) = b"
| "truthy (PInt n) = (n \<noteq> 0)"
| "truthy (PStr s) = (s \<noteq> [])"
| "truthy (PObj b s) = b"

type_synonym pydict = "(string \<times> pyval) list"

definition dict_get :: "pydict \<Rightarrow> string \<Rightarrow> pyval" where
  "dict_get d k = (case map_of d k of None \<Rightarrow> PNone | Some v \<Rightarrow> v)"

text \<open>\<open>d[k] = v\<close>: an existing key keeps its position, a new key goes to the end.\<close>

fun dict_set :: "('k \<times> 'v) list \<Rightarrow> 'k \<Rightarrow> 'v \<Rightarrow> ('k \<times> 'v) list" where
  "dict_set [] k v = [(k, v)]"
| "dict_set ((k', v') # d) k v =
     (if k' = k then (k, v) # d else (k', v') # dict_set d k v)"

section \<open>The angle catalog (appeal\_strategies.py)\<close>

record AppealAngle =
  name :: string
  description :: string
  key_questions :: "string list"
  strength_indicators :: "string list"
  required_evidence :: "string list"

definition angle_procedural_error :: AppealAngle where
  "angle_procedural_error = \<lparr>
     name = ''Procedural Error'',
     description = ''Citation was issued incorrectly or does not follow proper procedures'',
     key_questions = [''Was the citation securely attached to your vehicle?'',
       ''Are all details on the citation accurate (date, time, location, vehicle info)?'',
       ''Did the officer follow proper procedures?'',
       ''Is the citation number valid and legible?''],
     strength_indicators = [''Incorrect vehicle information'',
       ''Wrong date or time'',
       ''Citation not properly attached'',
       ''Missing required information'',
       ''Officer signature missing''],
     required_evidence = [''Photos of the citation showing errors'',
       ''Vehicle registration showing correct information'',
       ''Photos showing improper attachment if applicable'']\<rparr>"

definition angle_signage_issues :: AppealAngle where
  "angle_signage_issues = \<lparr>
     name = ''Inadequate or Confusing Signage'',
     description = ''Parking restrictions were not clearly posted or signs were confusing'',
     key_questions = [''Were there clear signs indicating the parking restriction?'',
       ''Were the signs visible and unobstructed?'',
       ''Were there conflicting signs in the area?'',
       ''Was the sign text legible and in compliance with local standards?''],
     strength_indicators = [''No sign visible from parking spot'',
       ''Sign obstructed by trees/objects'',
       ''Conflicting information from multiple signs'',
       ''Faded or illegible signs'',
       ''Sign not meeting MUTCD standards''],
     required_evidence = [''Photos showing parking spot and nearby signage'',
       ''Photos of any obstructions or damaged signs'',
       ''Photos showing perspective from driver's position'',
       ''Multiple angles showing sign placement'']\<rparr>"

definition angle_meter_malfunction :: AppealAngle where
  "angle_meter_malfunction = \<lparr>
     name = ''Meter or Payment System Malfunction'',
     description = ''The parking meter or payment system was not working properly'',
     key_questions = [''Did you attempt to pay for parking?'',
       ''Was the meter displaying any error messages?'',
       ''Did you report the malfunction?'',
       ''Do you have proof of attempted payment?''],
     strength_indicators = [(''Meter displayed 'out of order'' @ [CHR 0x27]),
       ''Payment transaction failed but money charged'',
       ''Receipt showing payment attempt'',
       ''Multiple users reporting same issue''],
     required_evidence = [''Photos of meter showing malfunction'',
       ''Payment receipts or transaction records'',
       ''Credit card statement showing charge'',
       ''Report filed about meter malfunction'']\<rparr>"

definition angle_emergency_circumstances :: AppealAngle where
  "angle_emergency_circumstances = \<lparr>
     name = ''Emergency or Extenuating Circumstances'',
     description = ''Parking violation occurred due to an emergency situation'',
     key_questions = [''What was the nature of the emergency?'',
       ''Do you have documentation of the emergency?'',
       ''Was this your first parking violation?'',
       ''How long was the vehicle parked?''],
     strength_indicators = [''Medical emergency'',
       ''Vehicle breakdown'',
       ''Avoiding accident'',
       ''Personal safety concern'',
       ''Family emergency''],
     required_evidence = [''Medical records or doctor's note'',
       ''Police report if applicable'',
       ''Tow truck receipt or mechanic report'',
       ''Photos showing vehicle condition'',
       ''Witness statements if available'']\<rparr>"

definition angle_payment_display_issue :: AppealAngle where
  "angle_payment_display_issue = \<lparr>
     name = ''Valid Payment Not Displayed'',
     description = ''Payment was made but receipt was not properly displayed'',
     key_questions = [''Did you pay for parking before the citation was issued?'',
       ''Do you have the parking receipt?'',
       ''Why was the receipt not displayed?'',
       ''What time was payment made vs. citation issued?''],
     strength_indicators = [''Receipt timestamp before citation time'',
       ''Payment for correct zone/meter'',
       ''Receipt fell inside vehicle'',
       ''Wind blew receipt away''],
     required_evidence = [''Original parking receipt'',
       ''Credit card or app payment confirmation'',
       ''Photos of receipt with timestamp'',
       ''Transaction records from parking app'']\<rparr>"

definition angle_zone_confusion :: AppealAngle where
  "angle_zone_confusion = \<lparr>
     name = ''Unclear Zone or Time Restrictions'',
     description = ''Zone boundaries or time restrictions were unclear or ambiguous'',
     key_questions = [''Were zone boundaries clearly marked?'',
       ''Were time restrictions clearly posted?'',
       ''Were there multiple overlapping zones?'',
       ''Was the zone map accurate?''],
     strength_indicators = [''No clear zone boundary markings'',
       ''Conflicting zone signs'',
       ''Time restriction periods unclear'',
       ''Street cleaning schedule ambiguous''],
     required_evidence = [''Photos showing zone markings (or lack thereof)'',
       ''Photos of relevant signage'',
       ''Screenshot of official parking map if applicable'',
       ''Photos showing perspective of parking location'']\<rparr>"

definition angle_first_time_leniency :: AppealAngle where
  "angle_first_time_leniency = \<lparr>
     name = ''First-Time Violation / Good Record'',
     description = ''Request for leniency based on clean parking record'',
     key_questions = [''Is this your first parking violation in this jurisdiction?'',
       ''How long have you been parking in this area?'',
       ''Do you have a generally good compliance record?'',
       ''Was this an honest mistake?''],
     strength_indicators = [''No prior parking citations'',
       ''Long-time resident or worker in area'',
       ''Regular parker with good history'',
       ''Simple misunderstanding of rules''],
     required_evidence = [''Driving record or DMV printout'',
       ''Statement of good parking history'',
       ''Proof of residency or employment in area'',
       ''Character reference if applicable'']\<rparr>"

definition angle_disability_accommodation :: AppealAngle where
  "angle_disability_accommodation = \<lparr>
     name = ''Disability-Related Accommodation'',
     description = ''Citation related to disability parking or accommodation needs'',
     key_questions = [''Do you have a valid disability placard or license plate?'',
       ''Was the placard properly displayed?'',
       ''Was the accessible parking space properly marked?'',
       ''Were you denied reasonable accommodation?''],
     strength_indicators = [''Valid disability placard not recognized'',
       ''Accessible space markings faded or unclear'',
       ''No accessible parking available'',
       ''Time limit insufficient for disability needs''],
     required_evidence = [''Copy of disability placard documentation'',
       ''Photos showing placard displayed'',
       ''Photos of parking space markings'',
       ''Medical documentation if relevant'']\<rparr>"

definition angle_time_discrepancy :: AppealAngle where
  "angle_time_discrepancy = \<lparr>
     name = ''Time Discrepancy or Error'',
     description = ''Citation time is incorrect or conflicts with actual circumstances'',
     key_questions = [''What time did you park?'',
       ''What time did you leave?'',
       ''Do you have proof of your timeline?'',
       ''What time does the citation show?''],
     strength_indicators = [''Citation time impossible or implausible'',
       ''Proof of being elsewhere at citation time'',
       ''Multiple citations same time different locations'',
       ''Meter time conflicts with citation time''],
     required_evidence = [''Timestamped photos or videos'',
       ''Receipt or parking payment with timestamp'',
       ''GPS or phone location data'',
       ''Witness statements'',
       ''Business receipts showing location at citation time'']\<rparr>"

definition APPEAL_ANGLES :: "(string \<times> AppealAngle) list" where
  "APPEAL_ANGLES = [
     (''procedural_error'', angle_procedural_error),
     (''signage_issues'', angle_signage_issues),
     (''meter_malfunction'', angle_meter_malfunction),
     (''emergency_circumstances'', angle_emergency_circumstances),
     (''payment_display_issue'', angle_payment_display_issue),
     (''zone_confusion'', angle_zone_confusion),
     (''first_time_leniency'', angle_first_time_leniency),
     (''disability_accommodation'', angle_disability_accommodation),
     (''time_discrepancy'', angle_time_discrepancy)]"

definition get_all_angles :: "(string \<times> AppealAngle) list" where
  "get_all_angles = APPEAL_ANGLES"

definition get_angle :: "string \<Rightarrow> AppealAngle option" where
  "get_angle angle_key = map_of APPEAL_ANGLES angle_key"

section \<open>The situation classifier\<close>

text \<open>
  \<open>analyze_situation\<close> runs nine \<open>if\<close> statements in sequence, each appending one key to
  \<open>relevant_angles\<close>, and replaces an empty result by the default set. A Python
  \<open>a or b or c\<close> under \<open>if\<close> is the disjunction of the operands' truth values.
\<close>

definition flag :: "pydict \<Rightarrow> string \<Rightarrow> bool" where
  "flag citation_details k = truthy (dict_get citation_details k)"

definition analyze_situation :: "pydict \<Rightarrow> string list" where
  "analyze_situation citation_details =
    (let r0 = [];
         r1 = (if flag citation_details ''has_errors'' \<or>
                  flag citation_details ''missing_info'' \<or>
                  flag citation_details ''incorrect_vehicle_info''
               then r0 @ [''procedural_error''] else r0);
         r2 = (if flag citation_details ''unclear_signage'' \<or>
                  flag citation_details ''no_visible_signs'' \<or>
                  flag citation_details ''conflicting_signs''
               then r1 @ [''signage_issues''] else r1);
         r3 = (if flag citation_details ''meter_malfunction'' \<or>
                  flag citation_details ''payment_failed'' \<or>
                  flag citation_details ''paid_but_cited''
               then r2 @ [''meter_malfunction''] else r2);
         r4 = (if flag citation_details ''emergency_situation''
               then r3 @ [''emergency_circumstances''] else r3);
         r5 = (if flag citation_details ''paid_not_displayed'' \<or>
                  flag citation_details ''receipt_not_visible''
               then r4 @ [''payment_display_issue''] else r4);
         r6 = (if flag citation_details ''unclear_zone'' \<or>
                  flag citation_details ''zone_boundary_unclear''
               then r5 @ [''zone_confusion''] else r5);
         r7 = (if flag citation_details ''first_violation''
               then r6 @ [''first_time_leniency''] else r6);
         r8 = (if flag citation_details ''disability_related'' \<or>
                  flag citation_details ''has_disability_placard''
               then r7 @ [''disability_accommodation''] else r7);
         r9 = (if flag citation_details ''time_incorrect'' \<or>
                  flag citation_details ''timeline_conflicts''
               then r8 @ [''time_discrepancy''] else r8)
     in if r9 = [] then [''procedural_error'', ''signage_issues'', ''first_time_leniency'']
        else r9)"

text \<open>
  The rule table of the specification: the angle keys in priority order, each with the
  fact names whose disjunction triggers it.
\<close>

definition spec_rules :: "(string \<times> string list) list" where
  "spec_rules =
    [(''procedural_error'', [''has_errors'', ''missing_info'', ''incorrect_vehicle_info'']),
     (''signage_issues'', [''unclear_signage'', ''no_visible_signs'', ''conflicting_signs'']),
     (''meter_malfunction'', [''meter_malfunction'', ''payment_failed'', ''paid_but_cited'']),
     (''emergency_circumstances'', [''emergency_situation'']),
     (''payment_display_issue'', [''paid_not_displayed'', ''receipt_not_visible'']),
     (''zone_confusion'', [''unclear_zone'', ''zone_boundary_unclear'']),
     (''first_time_leniency'', [''first_violation'']),
     (''disability_accommodation'', [''disability_related'', ''has_disability_placard'']),
     (''time_discrepancy'', [''time_incorrect'', ''timeline_conflicts''])]"

definition rule_satisfied :: "pydict \<Rightarrow> string list \<Rightarrow> bool" where
  "rule_satisfied citation_details ks = list_ex (flag citation_details) ks"

definition spec_classify :: "pydict \<Rightarrow> string list" where
  "spec_classify citation_details =
     map fst (filter (\<lambda>r. rule_satisfied citation_details (snd r)) spec_rules)"

text \<open>The nineteen fact names that \<open>analyze_situation\<close> reads, in the order of its tests.\<close>

definition trigger_keys :: "string list" where
  "trigger_keys =
    [''has_errors'', ''missing_info'', ''incorrect_vehicle_info'',
     ''unclear_signage'', ''no_visible_signs'', ''conflicting_signs'',
     ''meter_malfunction'', ''payment_failed'', ''paid_but_cited'',
     ''emergency_situation'',
     ''paid_not_displayed'', ''receipt_not_visible'',
     ''unclear_zone'', ''zone_boundary_unclear'',
     ''first_violation'',
     ''disability_related'', ''has_disability_placard'',
     ''time_incorrect'', ''timeline_conflicts'']"

definition fallback_angles :: "string list" where
  "fallback_angles = [''procedural_error'', ''signage_issues'', ''first_time_leniency'']"

section \<open>The evidence strength evaluator\<close>

text \<open>
  \<open>str.lower()\<close>, \<open>str.upper()\<close> and \<open>str.title()\<close> on ASCII text. \<open>title\<close> upper-cases a
  letter that follows a non-letter and lower-cases a letter that follows a letter.
  \<open>replace\<close> is \<open>str.replace\<close> for a one-character pattern and replacement.
\<close>

definition lower_char :: "char \<Rightarrow> char" where
  "lower_char c =
     (case map_of (zip ''ABCDEFGHIJKLMNOPQRSTUVWXYZ'' ''abcdefghijklmnopqrstuvwxyz'') c of
        Some d \<Rightarrow> d | None \<Rightarrow> c)"

definition upper_char :: "char \<Rightarrow> char" where
  "upper_char c =
     (case map_of (zip ''abcdefghijklmnopqrstuvwxyz'' ''ABCDEFGHIJKLMNOPQRSTUVWXYZ'') c of
        Some d \<Rightarrow> d | None \<Rightarrow> c)"

definition is_cased :: "char \<Rightarrow> bool" where
  "is_cased c \<longleftrightarrow>
     c \<in> set ''abcdefghijklmnopqrstuvwxyzABCDEFGHIJKLMNOPQRSTUVWXYZ''"

definition lower :: "string \<Rightarrow> string" where
  "lower s = map lower_char s"

definition upper :: "string \<Rightarrow> string" where
  "upper s = map upper_char s"

definition replace :: "char \<Rightarrow> char \<Rightarrow> string \<Rightarrow> string" where
  "replace old new s = map (\<lambda>c. if c = old then new else c) s"

fun title_from :: "bool \<Rightarrow> string \<Rightarrow> string" where
  "title_from previous_is_cased [] = []"
| "title_from previous_is_cased (c # cs) =
     (if previous_is_cased then lower_char c else upper_char c) # title_from (is_cased c) cs"

definition title :: "string \<Rightarrow> string" where
  "title s = title_from False s"

text \<open>The key under which an evidence item is looked up.\<close>

definition evidence_key :: "string \<Rightarrow> string" where
  "evidence_key evidence_item = replace CHR '' '' CHR ''_'' (lower evidence_item)"

text \<open>The loop of \<open>get_angle_strength\<close> over \<open>angle.required_evidence\<close>, counting in
  \<open>evidence_count\<close>.\<close>

fun count_evidence :: "string list \<Rightarrow> pydict \<Rightarrow> nat \<Rightarrow> nat" where
  "count_evidence [] evidence evidence_count = evidence_count"
| "count_evidence (evidence_item # items) evidence evidence_count =
     count_evidence items evidence
       (if truthy (dict_get evidence (evidence_key evidence_item))
        then evidence_count + 1 else evidence_count)"

text \<open>
  The ratio is a quotient of two list-sized naturals, compared with the literals 0.7 and
  0.4. Python computes the quotient and the literals as correctly rounded doubles; rounding
  is monotone and a quotient \<open>c / n\<close> that differs from 7/10 or 4/10 differs by at least
  \<open>1 / (10 n)\<close>, far more than the spacing of doubles for any list that fits in memory, so
  the comparisons have the outcome they have on the exact quotients. The model uses
  rational numbers.
\<close>

definition get_angle_strength :: "string \<Rightarrow> pydict \<Rightarrow> string" where
  "get_angle_strength angle_key evidence =
     (case get_angle angle_key of
        None \<Rightarrow> ''weak''
      | Some angle \<Rightarrow>
          (let evidence_count = count_evidence (required_evidence angle) evidence 0;
               evidence_ratio =
                 (if required_evidence angle \<noteq> []
                  then rat_of_nat evidence_count / rat_of_nat (length (required_evidence angle))
                  else 0)
           in if evidence_ratio \<ge> 7 / 10 then ''strong''
              else if evidence_ratio \<ge> 4 / 10 then ''moderate''
              else ''weak''))"

text \<open>The number of matched items and the ratio as the specification words them.\<close>

definition matches :: "AppealAngle \<Rightarrow> pydict \<Rightarrow> nat" where
  "matches angle evidence =
     length (filter (\<lambda>item. truthy (dict_get evidence (evidence_key item)))
       (required_evidence angle))"

definition ratio :: "AppealAngle \<Rightarrow> pydict \<Rightarrow> rat" where
  "ratio angle evidence =
     (if required_evidence angle = [] then 0
      else rat_of_nat (matches angle evidence) / rat_of_nat (length (required_evidence angle)))"

text \<open>The order of the bands: weak below moderate below strong.\<close>

definition band_rank :: "string \<Rightarrow> nat" where
  "band_rank band = (if band = ''strong'' then 2 else if band = ''moderate'' then 1 else 0)"

section \<open>The jurisdiction catalog (regulations.py)\<close>

text \<open>
  The state and city entries are dictionaries with a fixed set of keys; they are records
  here. The city entry's key \<open>state\<close> is the field \<open>city_state\<close>, the state entry's key
  \<open>name\<close> the field \<open>st_name\<close>. The combined information always has the keys \<open>state\<close>
  and \<open>city\<close>, each holding an entry or \<open>None\<close>: the lookup builds it so, and so does
  every caller that passes one on.
\<close>

record state_info =
  st_name :: string
  statute_limitations_days :: int
  common_defenses :: "string list"
  appeal_address_format :: string

record city_info =
  city_state :: string
  specific_rules :: "string list"
  online_appeal :: bool
  fee_waiver_available :: bool

record location_info =
  state :: "state_info option"
  city :: "city_info option"
  available_grounds :: "string list"

definition COMMON_APPEAL_GROUNDS :: "string list" where
  "COMMON_APPEAL_GROUNDS =
    [''unclear_signage'',
     ''emergency_circumstances'',
     ''vehicle_malfunction'',
     ''medical_emergency'',
     ''incorrect_citation_details'',
     ''meter_malfunction'',
     ''conflicting_signs'',
     ''first_time_offense'',
     ''extenuating_circumstances'',
     ''procedural_errors'',
     ''incorrect_vehicle_info'',
     ''paid_but_not_displayed'',
     ''time_discrepancy'',
     ''zone_confusion'',
     ''disability_accommodation'']"

definition state_CA :: state_info where
  "state_CA = \<lparr>
     st_name = ''California'',
     statute_limitations_days = 21,
     common_defenses = [''CVC 22507.8 - Disabled parking violations require proper investigation'',
       ''CVC 40215 - Notice of parking violation must be securely attached'',
       ''Signage must comply with Manual on Uniform Traffic Control Devices (MUTCD)''],
     appeal_address_format = ''City parking authority or designated appeals board''\<rparr>"

definition state_NY :: state_info where
  "state_NY = \<lparr>
     st_name = ''New York'',
     statute_limitations_days = 30,
     common_defenses = [''NYC Traffic Rules require clear and visible signage'',
       ''Broken meters - proof required within 7 days'',
       ''Emergency vehicles - documentation required''],
     appeal_address_format = ''Department of Finance, Parking Violations Bureau''\<rparr>"

definition state_TX :: state_info where
  "state_TX = \<lparr>
     st_name = ''Texas'',
     statute_limitations_days = 21,
     common_defenses = [''Transportation Code 681.0101 - Proper notice requirements'',
       ''Sign visibility and compliance with state standards'',
       ''Meter malfunction - immediate reporting helps case''],
     appeal_address_format = ''Municipal court or designated hearing officer''\<rparr>"

definition state_FL :: state_info where
  "state_FL = \<lparr>
     st_name = ''Florida'',
     statute_limitations_days = 30,
     common_defenses = [''F.S. 316.1967 - Parking regulations must be clearly posted'',
       ''Meter violations - malfunction must be documented'',
       ''Emergency circumstances with supporting documentation''],
     appeal_address_format = ''City clerk or parking violations bureau''\<rparr>"

definition state_IL :: state_info where
  "state_IL = \<lparr>
     st_name = ''Illinois'',
     statute_limitations_days = 21,
     common_defenses = [''Chicago Municipal Code - signage requirements'',
       ''Meter payment issues - transaction records'',
       ''Medical emergency documentation''],
     appeal_address_format = ''Department of Administrative Hearings''\<rparr>"

definition STATE_REGULATIONS :: "(string \<times> state_info) list" where
  "STATE_REGULATIONS = [
     (''CA'', state_CA),
     (''NY'', state_NY),
     (''TX'', state_TX),
     (''FL'', state_FL),
     (''IL'', state_IL)]"

definition city_San_Francisco :: city_info where
  "city_San_Francisco = \<lparr>
     city_state = ''CA'',
     specific_rules = [''SFMTA requires photos of signage for signage-related appeals'',
       ''Street cleaning violations - check SFMTA calendar'',
       ''Residential permit zones - proof of residency required''],
     online_appeal = True,
     fee_waiver_available = True\<rparr>"

definition city_Los_Angeles :: city_info where
  "city_Los_Angeles = \<lparr>
     city_state = ''CA'',
     specific_rules = [''LADOT handles parking enforcement'',
       ''First-time violators may get reduced fines'',
       ''Photo evidence highly recommended''],
     online_appeal = True,
     fee_waiver_available = False\<rparr>"

definition city_New_York_City :: city_info where
  "city_New_York_City = \<lparr>
     city_state = ''NY'',
     specific_rules = [''Online appeals through NYC.gov required for most violations'',
       ''Hearing requests must be filed within 30 days'',
       ''Evidence upload system available online''],
     online_appeal = True,
     fee_waiver_available = False\<rparr>"

definition city_Chicago :: city_info where
  "city_Chicago = \<lparr>
     city_state = ''IL'',
     specific_rules = [''City of Chicago parking ticket portal'',
       ''Early payment discount available (not applicable if appealing)'',
       ''Administrative hearing process''],
     online_appeal = True,
     fee_waiver_available = False\<rparr>"

definition city_Houston :: city_info where
  "city_Houston = \<lparr>
     city_state = ''TX'',
     specific_rules = [''Houston Municipal Courts handle appeals'',
       ''Written statement required for appeal'',
       ''Court appearance may be required for some violations''],
     online_appeal = False,
     fee_waiver_available = True\<rparr>"

definition city_Miami :: city_info where
  "city_Miami = \<lparr>
     city_state = ''FL'',
     specific_rules = [''Miami Parking Authority handles enforcement'',
       ''Online contest system available'',
       ''Supporting documents must be uploaded or mailed''],
     online_appeal = True,
     fee_waiver_available = False\<rparr>"

definition CITY_REGULATIONS :: "(string \<times> city_info) list" where
  "CITY_REGULATIONS = [
     (''San Francisco'', city_San_Francisco),
     (''Los Angeles'', city_Los_Angeles),
     (''New York City'', city_New_York_City),
     (''Chicago'', city_Chicago),
     (''Houston'', city_Houston),
     (''Miami'', city_Miami)]"

definition get_state_info :: "string \<Rightarrow> state_info option" where
  "get_state_info state_code = map_of STATE_REGULATIONS (upper state_code)"

definition get_city_info :: "string \<Rightarrow> city_info option" where
  "get_city_info city_name = map_of CITY_REGULATIONS city_name"

text \<open>\<open>city_name\<close> is optional; \<open>if city_name\<close> holds for a non-empty string.\<close>

definition get_combined_info :: "string option \<Rightarrow> string \<Rightarrow> location_info" where
  "get_combined_info city_name state_code =
     (let info = \<lparr>state = get_state_info state_code, city = None,
                   available_grounds = COMMON_APPEAL_GROUNDS\<rparr>
      in case city_name of
           None \<Rightarrow> info
         | Some cn \<Rightarrow>
             if cn \<noteq> [] then
               (case get_city_info cn of
                  None \<Rightarrow> info
                | Some city_info \<Rightarrow>
                    if city_state city_info = upper state_code
                    then info\<lparr>city := Some city_info\<rparr> else info)
             else info)"

definition get_all_states :: "string list" where
  "get_all_states = map fst STATE_REGULATIONS"

definition get_cities_for_state :: "string \<Rightarrow> string list" where
  "get_cities_for_state state_code =
     (let state_code = upper state_code
      in map fst (filter (\<lambda>(city, info). city_state info = state_code) CITY_REGULATIONS))"

section \<open>The request assembler (appeal\_generator.py)\<close>

text \<open>What an f-string writes for a value: \<open>str\<close> of an integer, a boolean, a string,
  and the \<open>str\<close> text that a value of another type carries.\<close>

fun str_of_nat :: "nat \<Rightarrow> string" where
  "str_of_nat n =
     (if n < 10 then [''0123456789'' ! n]
      else str_of_nat (n div 10) @ [''0123456789'' ! (n mod 10)])"

declare str_of_nat.simps [simp del]

definition str_of_int :: "int \<Rightarrow> string" where
  "str_of_int i = (if i < 0 then ''-'' @ str_of_nat (nat (- i)) else str_of_nat (nat i))"

definition str_of_bool :: "bool \<Rightarrow> string" where
  "str_of_bool b = (if b then ''True'' else ''False'')"

fun str_of_val :: "pyval \<Rightarrow> string" where
  "str_of_val PNone = ''None''"
| "str_of_val (PBool b) = str_of_bool b"
| "str_of_val (PInt n) = str_of_int n"
| "str_of_val (PStr s) = s"
| "str_of_val (PObj b s) = s"

text \<open>The fixed text of the two prompts.\<close>

definition single_preamble :: string where
  "single_preamble =
     ''You are an expert legal assistant specializing in parking citation appeals.\<newline>'' @
     ''Your task is to write a compelling, professional, and legally sound appeal letter.\<newline>'' @
     ''\<newline>'' @
     ''APPEAL STRATEGY: ''"

definition single_structure_head :: string where
  "single_structure_head =
     ''\<newline>'' @
     ''\<newline>'' @
     ''REQUIRED STRUCTURE:\<newline>'' @
     ''1. Opening: Brief, professional greeting and statement of purpose\<newline>'' @
     ''2. Citation Information: Reference the citation number, date, location\<newline>'' @
     ''3. Main Argument: Present the ''"

definition single_structure_tail :: string where
  "single_structure_tail =
     '' case clearly and persuasively\<newline>'' @
     ''4. Supporting Evidence: Reference all available evidence that supports this angle\<newline>'' @
     ''5. Legal/Regulatory Basis: Cite relevant regulations from the jurisdiction\<newline>'' @
     ''6. Conclusion: Respectful request for dismissal or reduction\<newline>'' @
     ''7. Closing: Professional sign-off\<newline>'' @
     ''\<newline>'' @
     ''TONE REQUIREMENTS:\<newline>'' @
     ''- Professional and respectful\<newline>'' @
     ''- Factual and objective\<newline>'' @
     ''- Confident but not aggressive\<newline>'' @
     ''- Empathetic where appropriate\<newline>'' @
     ''- Legally informed\<newline>'' @
     ''\<newline>'' @
     ''IMPORTANT GUIDELINES:\<newline>'' @
     ''- Do NOT fabricate facts or evidence not provided\<newline>'' @
     ''- Cite specific regulations when applicable\<newline>'' @
     ''- Keep the letter concise (300-500 words ideal)\<newline>'' @
     ''- Use formal business letter format\<newline>'' @
     ''- Be specific about dates, times, and locations\<newline>'' @
     ''- Request specific relief (dismissal or reduction of fine)\<newline>'' @
     ''\<newline>'' @
     ''Generate the appeal letter now:''"

definition comprehensive_preamble :: string where
  "comprehensive_preamble =
     ''You are an expert legal assistant specializing in parking citation appeals.\<newline>'' @
     ''Write a single, comprehensive appeal letter that strategically incorporates multiple strong arguments.\<newline>'' @
     ''\<newline>'' @
     ''CITATION DETAILS:\<newline>''"

definition comprehensive_instructions :: string where
  "comprehensive_instructions =
     ''\<newline>'' @
     ''\<newline>'' @
     ''Create a single, unified appeal letter that:\<newline>'' @
     ''1. Opens professionally with citation reference\<newline>'' @
     ''2. Presents the strongest arguments from the available angles\<newline>'' @
     ''3. Weaves multiple points together coherently (don't list angles separately)\<newline>'' @
     ''4. Cites relevant regulations and laws\<newline>'' @
     ''5. References all supporting evidence naturally\<newline>'' @
     ''6. Maintains a respectful, professional tone throughout\<newline>'' @
     ''7. Concludes with a clear request for relief\<newline>'' @
     ''\<newline>'' @
     ''The letter should read as a cohesive whole, not as separate sections for each angle.\<newline>'' @
     ''Aim for 400-600 words. Use formal business letter format.''"

text \<open>One rendered entry of the facts or the evidence, and the loop over \<open>items()\<close> that
  writes the truthy ones.\<close>

definition detail_line :: "string \<Rightarrow> pyval \<Rightarrow> string" where
  "detail_line key val =
     ''- '' @ title (replace CHR ''_'' CHR '' '' key) @ '': '' @ str_of_val val @ ''\<newline>''"

fun detail_lines :: "pydict \<Rightarrow> string" where
  "detail_lines [] = []"
| "detail_lines ((key, val) # items) =
     (if truthy val then detail_line key val else []) @ detail_lines items"

definition bullet_lines :: "string list \<Rightarrow> string" where
  "bullet_lines xs = concat (map (\<lambda>x. ''- '' @ x @ ''\<newline>'') xs)"

definition build_appeal_prompt ::
  "pydict \<Rightarrow> location_info \<Rightarrow> AppealAngle \<Rightarrow> pydict \<Rightarrow> string" where
  "build_appeal_prompt citation_details location_info angle evidence =
     single_preamble @ name angle @
     ''\<newline>STRATEGY DESCRIPTION: '' @ description angle @
     ''\<newline>\<newline>CITATION DETAILS:\<newline>'' @
     detail_lines citation_details @
     ''\<newline>\<newline>JURISDICTION INFORMATION:\<newline>'' @
     (case state location_info of
        None \<Rightarrow> []
      | Some state_info \<Rightarrow>
          ''State: '' @ st_name state_info @ ''\<newline>'' @
          ''Appeal Deadline: '' @ str_of_int (statute_limitations_days state_info) @
          '' days from citation\<newline>'' @
          (if common_defenses state_info \<noteq> []
           then ''\<newline>Relevant State Regulations:\<newline>'' @
                bullet_lines (common_defenses state_info)
           else [])) @
     (case city location_info of
        None \<Rightarrow> []
      | Some city_info \<Rightarrow>
          ''\<newline>City-Specific Information:\<newline>'' @
          (if specific_rules city_info \<noteq> [] then bullet_lines (specific_rules city_info)
           else []) @
          ''Online Appeal Available: '' @ str_of_bool (online_appeal city_info) @
          ''\<newline>'') @
     ''\<newline>\<newline>AVAILABLE EVIDENCE:\<newline>'' @
     detail_lines evidence @
     ''\<newline>\<newline>KEY POINTS FOR THIS APPEAL ANGLE:\<newline>'' @
     bullet_lines (strength_indicators angle) @
     single_structure_head @ name angle @ single_structure_tail"

text \<open>
  The external generation capability, \<open>self.model.generate_content(prompt)\<close> followed by
  \<open>response.text\<close>: it answers a prompt with a text (\<open>Inr\<close>) or raises an exception of
  class \<open>Exception\<close>, whose \<open>str(e)\<close> is carried by \<open>Inl\<close>, and it has a state of its own
  that each call may change. The request operations catch with \<open>except Exception\<close>: an
  exception outside that class (\<open>KeyboardInterrupt\<close>, \<open>SystemExit\<close>) is not caught by them
  and is not an outcome of this model.
\<close>

type_synonym 'g generation = "'g \<Rightarrow> string \<Rightarrow> (string + string) \<times> 'g"

definition generate_single_angle_appeal ::
  "'g generation \<Rightarrow> 'g \<Rightarrow> pydict \<Rightarrow> location_info \<Rightarrow> AppealAngle \<Rightarrow> pydict \<Rightarrow> string \<times> 'g" where
  "generate_single_angle_appeal generate_content g citation_details location_info angle evidence =
     (let prompt = build_appeal_prompt citation_details location_info angle evidence
      in case generate_content g prompt of
           (Inr text, g') \<Rightarrow> (text, g')
         | (Inl e, g') \<Rightarrow> (''Error generating appeal: '' @ e, g'))"

text \<open>The loop of \<open>generate_multi_angle_appeal\<close> over \<open>selected_angles\<close>, filling \<open>appeals\<close>.\<close>

fun multi_angle_loop ::
  "'g generation \<Rightarrow> pydict \<Rightarrow> location_info \<Rightarrow> pydict \<Rightarrow> string list \<Rightarrow>
     (string \<times> string) list \<Rightarrow> 'g \<Rightarrow> (string \<times> string) list \<times> 'g" where
  "multi_angle_loop generate_content citation_details location_info evidence [] appeals g =
     (appeals, g)"
| "multi_angle_loop generate_content citation_details location_info evidence
     (angle_key # rest) appeals g =
     (case get_angle angle_key of
        None \<Rightarrow>
          multi_angle_loop generate_content citation_details location_info evidence rest appeals g
      | Some angle \<Rightarrow>
          (case generate_single_angle_appeal generate_content g citation_details location_info
                  angle evidence of
             (appeal_text, g') \<Rightarrow>
               multi_angle_loop generate_content citation_details location_info evidence rest
                 (dict_set appeals (name angle) appeal_text) g'))"

definition generate_multi_angle_appeal ::
  "'g generation \<Rightarrow> 'g \<Rightarrow> pydict \<Rightarrow> location_info \<Rightarrow> string list \<Rightarrow> pydict \<Rightarrow>
     (string \<times> string) list \<times> 'g" where
  "generate_multi_angle_appeal generate_content g citation_details location_info
     selected_angles evidence =
     multi_angle_loop generate_content citation_details location_info evidence
       selected_angles [] g"

definition format_dict :: "pydict \<Rightarrow> string" where
  "format_dict data =
     (if data = [] then ''None provided''
      else (let formatted = detail_lines data
            in if formatted \<noteq> [] then formatted else ''None provided''))"

text \<open>
  \<open>generate_comprehensive_appeal\<close> assembles its prompt before the \<open>try\<close> block. It reads
  \<open>state_info.get(...)\<close> without testing \<open>state_info\<close>, which is \<open>None\<close> for an unknown
  state: that call raises \<open>AttributeError\<close>, and nothing catches it.
\<close>

datatype py_error = AttributeError

definition angle_summary :: "AppealAngle \<Rightarrow> string" where
  "angle_summary angle =
     ''\<newline>'' @ name angle @ '':\<newline>'' @
     ''Description: '' @ description angle @ ''\<newline>'' @
     ''Key points:\<newline>'' @
     concat (map (\<lambda>point. ''  - '' @ point @ ''\<newline>'') (take 3 (strength_indicators angle)))"

definition comprehensive_prompt ::
  "pydict \<Rightarrow> location_info \<Rightarrow> string list \<Rightarrow> pydict \<Rightarrow> py_error + string" where
  "comprehensive_prompt citation_details location_info all_angles evidence =
     (let angle_details = List.map_filter get_angle all_angles
      in case state location_info of
           None \<Rightarrow> Inl AttributeError
         | Some state_info \<Rightarrow>
             Inr (comprehensive_preamble @ format_dict citation_details @
                  ''\<newline>\<newline>JURISDICTION:\<newline>State: '' @ st_name state_info @
                  ''\<newline>Appeal Deadline: '' @
                  str_of_int (statute_limitations_days state_info) @ '' days\<newline>'' @
                  (if common_defenses state_info \<noteq> []
                   then ''\<newline>Relevant Regulations:\<newline>'' @
                        bullet_lines (common_defenses state_info)
                   else []) @
                  (case city location_info of
                     None \<Rightarrow> []
                   | Some city_info \<Rightarrow>
                       if specific_rules city_info \<noteq> []
                       then ''\<newline>City-Specific Rules:\<newline>'' @
                            bullet_lines (specific_rules city_info)
                       else []) @
                  ''\<newline>\<newline>AVAILABLE EVIDENCE:\<newline>'' @ format_dict evidence @
                  ''\<newline>\<newline>APPEAL ANGLES TO INCORPORATE:\<newline>'' @
                  concat (map angle_summary angle_details) @
                  comprehensive_instructions))"

definition generate_comprehensive_appeal ::
  "'g generation \<Rightarrow> 'g \<Rightarrow> pydict \<Rightarrow> location_info \<Rightarrow> string list \<Rightarrow> pydict \<Rightarrow>
     (py_error + string) \<times> 'g" where
  "generate_comprehensive_appeal generate_content g citation_details location_info
     all_angles evidence =
     (case comprehensive_prompt citation_details location_info all_angles evidence of
        Inl err \<Rightarrow> (Inl err, g)
      | Inr prompt \<Rightarrow>
          (case generate_content g prompt of
             (Inr text, g') \<Rightarrow> (Inr text, g')
           | (Inl e, g') \<Rightarrow> (Inr (''Error generating comprehensive appeal: '' @ e), g')))"

section \<open>Example inputs\<close>

text \<open>The citation facts of the specification's worked example.\<close>

definition example_facts :: pydict where
  "example_facts =
    [(''unclear_signage'', PBool True), (''first_violation'', PBool True),
     (''meter_malfunction'', PBool True)]"

text \<open>Evidence sets for the emergency and the signage angle.\<close>

definition example_evidence :: pydict where
  "example_evidence = [(''medical_records_or_doctor's_note'', PBool True)]"

definition example_signage_evidence :: pydict where
  "example_signage_evidence =
     [(''photos_showing_parking_spot_and_nearby_signage'', PBool True),
      (''photos_of_any_obstructions_or_damaged_signs'', PBool True),
      (''photos_showing_perspective_from_driver's_position'', PBool True)]"


definition recording_generation :: "(string list) generation" where
  "recording_generation = (\<lambda>received prompt. (Inr prompt, received @ [prompt]))"

text \<open>The facts that \<open>quick_appeal\<close> of the workflow passes on.\<close>

definition quick_facts :: pydict where
  "quick_facts =
    [(''citation_number'', PStr ''A1''), (''violation_type'', PStr ''expired meter''),
     (''first_violation'', PBool True)]"

text \<open>Citation facts to which the workflow has added the answer to a follow-up question,
  a nested dictionary.\<close>

definition followup_facts :: pydict where
  "followup_facts =
     quick_facts @
     [(''followup_q1'',
       PObj True ''{'question': 'Was the sign visible?', 'answer': 'No, a tree hid it'}'')]"

section \<open>Properties of the classifier\<close>

lemma append_if_step: "(if b then r @ [k] else r) = r @ (if b then [k] else [])"
  by simp

lemma if_single_empty: "((if b then [k] else []) = []) = (\<not> b)"
  by simp

lemma spec_classify_unfold:
  "spec_classify cd =
     (if rule_satisfied cd [''has_errors'', ''missing_info'', ''incorrect_vehicle_info'']
      then [''procedural_error''] else []) @
     (if rule_satisfied cd [''unclear_signage'', ''no_visible_signs'', ''conflicting_signs'']
      then [''signage_issues''] else []) @
     (if rule_satisfied cd [''meter_malfunction'', ''payment_failed'', ''paid_but_cited'']
      then [''meter_malfunction''] else []) @
     (if rule_satisfied cd [''emergency_situation''] then [''emergency_circumstances''] else []) @
     (if rule_satisfied cd [''paid_not_displayed'', ''receipt_not_visible'']
      then [''payment_display_issue''] else []) @
     (if rule_satisfied cd [''unclear_zone'', ''zone_boundary_unclear'']
      then [''zone_confusion''] else []) @
     (if rule_satisfied cd [''first_violation''] then [''first_time_leniency''] else []) @
     (if rule_satisfied cd [''disability_related'', ''has_disability_placard'']
      then [''disability_accommodation''] else []) @
     (if rule_satisfied cd [''time_incorrect'', ''timeline_conflicts'']
      then [''time_discrepancy''] else [])"
  unfolding spec_classify_def spec_rules_def
  by (simp only: filter.simps list.map fst_conv snd_conv append_Nil append_Cons
      if_distrib [of "map fst"] if_distrib [of "\<lambda>xs. xs @ _"] cong: if_cong)

text \<open>The chain of appends computes the satisfied rules of the table, in table order.\<close>

lemma analyze_situation_rules:
  "analyze_situation cd =
     (if spec_classify cd = [] then fallback_angles else spec_classify cd)"
  unfolding analyze_situation_def append_if_step
  unfolding Let_def spec_classify_unfold fallback_angles_def rule_satisfied_def
  by (simp only: list_ex_Nil_iff list_ex_Cons_iff append_Nil simp_thms append_assoc cong: if_cong)

lemma trigger_keys_rules: "trigger_keys = concat (map snd spec_rules)"
  by (simp add: trigger_keys_def spec_rules_def)

lemma spec_classify_empty_iff:
  "spec_classify cd = [] \<longleftrightarrow> \<not> list_ex (flag cd) trigger_keys"
  unfolding spec_classify_unfold trigger_keys_def rule_satisfied_def
  by (simp only: append_is_Nil_conv if_single_empty list_ex_Nil_iff list_ex_Cons_iff
      simp_thms de_Morgan_disj conj_assoc)

lemma distinct_spec_rules: "distinct (map fst spec_rules)"
  by (simp add: spec_rules_def)

lemma distinct_spec_classify: "distinct (spec_classify cd)"
  unfolding spec_classify_def using distinct_spec_rules
  by (rule distinct_map_filter)

lemma length_spec_classify: "length (spec_classify cd) \<le> 9"
proof -
  have "length (spec_classify cd) \<le> length spec_rules"
    by (simp add: spec_classify_def)
  also have "length spec_rules = 9"
    by (simp add: spec_rules_def)
  finally show ?thesis .
qed

lemma catalog_keys: "map fst APPEAL_ANGLES = map fst spec_rules"
  by (simp add: APPEAL_ANGLES_def spec_rules_def)

lemma get_angle_defined: "get_angle k \<noteq> None \<longleftrightarrow> k \<in> set (map fst spec_rules)"
  unfolding get_angle_def catalog_keys [symmetric]
  by (simp add: map_of_eq_None_iff)

lemma spec_classify_subset: "set (spec_classify cd) \<subseteq> set (map fst spec_rules)"
  by (auto simp: spec_classify_def)

lemma fallback_subset: "set fallback_angles \<subseteq> set (map fst spec_rules)"
  by (simp add: fallback_angles_def spec_rules_def)

lemma analyze_situation_subset: "set (analyze_situation cd) \<subseteq> set (map fst spec_rules)"
  using spec_classify_subset [of cd] fallback_subset
  by (simp add: analyze_situation_rules)

lemma spec_classify_cong:
  assumes "\<forall>k\<in>set trigger_keys. flag a k = flag b k"
  shows "spec_classify a = spec_classify b"
proof -
  have "rule_satisfied a (snd r) = rule_satisfied b (snd r)" if "r \<in> set spec_rules" for r
  proof -
    from that have "set (snd r) \<subseteq> set trigger_keys"
      unfolding trigger_keys_rules by auto
    with assms show ?thesis
      by (auto simp: rule_satisfied_def list_ex_iff)
  qed
  then have "filter (\<lambda>r. rule_satisfied a (snd r)) spec_rules =
             filter (\<lambda>r. rule_satisfied b (snd r)) spec_rules"
    by (intro filter_cong) simp_all
  then show ?thesis
    unfolding spec_classify_def by simp
qed

lemma flag_Nil: "flag [] k = False"
  by (simp add: flag_def dict_get_def)

lemma flag_Cons: "flag ((k', v) # d) k = (if k' = k then truthy v else flag d k)"
  by (simp add: flag_def dict_get_def)

lemma example_facts_classified:
  "analyze_situation example_facts =
     [''signage_issues'', ''meter_malfunction'', ''first_time_leniency'']"
  by (simp add: analyze_situation_def example_facts_def flag_Nil flag_Cons)

text \<open>
  Claim C2. When at least one of the recognized trigger facts is truthy, the classifier
  returns the keys of exactly the satisfied rules of the table, in the table's priority
  order; the result is non-empty and free of duplicates. The facts with unclear signage,
  first violation and meter malfunction give signage issues, meter malfunction and
  first-time leniency, in that order.
\<close>

theorem classify_triggered:
  "list_ex (flag cd) trigger_keys \<Longrightarrow>
     analyze_situation cd = spec_classify cd \<and>
     analyze_situation cd \<noteq> [] \<and>
     distinct (analyze_situation cd) \<and>
     (\<forall>a. a \<in> set (analyze_situation cd) \<longleftrightarrow>
          (\<exists>ks. (a, ks) \<in> set spec_rules \<and> rule_satisfied cd ks)) \<and>
     analyze_situation example_facts =
       [''signage_issues'', ''meter_malfunction'', ''first_time_leniency'']"
proof -
  assume "list_ex (flag cd) trigger_keys"
  then have ne: "spec_classify cd \<noteq> []"
    by (simp add: spec_classify_empty_iff)
  then have eq: "analyze_situation cd = spec_classify cd"
    by (simp add: analyze_situation_rules)
  have mem: "a \<in> set (spec_classify cd) \<longleftrightarrow>
      (\<exists>ks. (a, ks) \<in> set spec_rules \<and> rule_satisfied cd ks)" for a
    unfolding spec_classify_def by force
  from eq ne mem show ?thesis
    by (simp add: distinct_spec_classify example_facts_classified)
qed

theorem classify_triggered_witness:
  "list_ex (flag example_facts) trigger_keys \<and>
   analyze_situation example_facts = spec_classify example_facts \<and>
   spec_classify example_facts =
     [''signage_issues'', ''meter_malfunction'', ''first_time_leniency'']"
proof -
  have h: "list_ex (flag example_facts) trigger_keys"
    by (simp add: trigger_keys_def example_facts_def flag_Nil flag_Cons)
  from classify_triggered [OF h] h show ?thesis
    by metis
qed

text \<open>
  Claim C5. When none of the recognized trigger facts is truthy, and in particular for the
  empty mapping, the classifier returns the fallback sequence procedural error, signage
  issues, first-time leniency; the classifier never returns the empty sequence.
\<close>

theorem classify_fallback:
  "(\<not> list_ex (flag cd) trigger_keys \<longrightarrow>
      analyze_situation cd = [''procedural_error'', ''signage_issues'', ''first_time_leniency'']) \<and>
   analyze_situation [] = [''procedural_error'', ''signage_issues'', ''first_time_leniency''] \<and>
   analyze_situation cd \<noteq> []"
proof -
  have a: "analyze_situation cd = fallback_angles" if "\<not> list_ex (flag cd) trigger_keys" for cd
    using that by (simp add: analyze_situation_rules spec_classify_empty_iff)
  have "\<not> list_ex (flag []) trigger_keys"
    by (simp add: list_ex_iff flag_Nil)
  then have b: "analyze_situation [] = fallback_angles"
    by (rule a)
  have c: "analyze_situation cd \<noteq> []"
    by (simp add: analyze_situation_rules fallback_angles_def)
  from a b c show ?thesis
    by (simp add: fallback_angles_def)
qed

theorem classify_fallback_witness:
  "\<not> list_ex (flag [(''citation_number'', PStr ''ABC123''), (''first_violation'', PBool False)])
       trigger_keys \<and>
   analyze_situation [(''citation_number'', PStr ''ABC123''), (''first_violation'', PBool False)] =
     [''procedural_error'', ''signage_issues'', ''first_time_leniency'']"
proof -
  have h: "\<not> list_ex (flag [(''citation_number'', PStr ''ABC123''), (''first_violation'', PBool False)])
       trigger_keys"
    by (simp add: trigger_keys_def flag_Nil flag_Cons)
  with classify_fallback [of "[(''citation_number'', PStr ''ABC123''), (''first_violation'', PBool False)]"]
  show ?thesis by blast
qed

text \<open>
  Claim C9. Every key the classifier returns is a key of the angle catalog, so looking it
  up never gives \<open>None\<close>; the result has at most nine keys, each at most once.
\<close>

theorem classify_within_catalog:
  "(\<forall>k\<in>set (analyze_situation cd). get_angle k \<noteq> None) \<and>
   length (analyze_situation cd) \<le> 9 \<and>
   distinct (analyze_situation cd)"
proof -
  have "\<forall>k\<in>set (analyze_situation cd). get_angle k \<noteq> None"
    using analyze_situation_subset [of cd] unfolding get_angle_defined by blast
  moreover have "length (analyze_situation cd) \<le> 9"
    using length_spec_classify [of cd] by (simp add: analyze_situation_rules fallback_angles_def)
  moreover have "distinct (analyze_situation cd)"
    using distinct_spec_classify [of cd] by (simp add: analyze_situation_rules fallback_angles_def)
  ultimately show ?thesis by blast
qed

theorem classify_within_catalog_witness:
  "''meter_malfunction'' \<in> set (analyze_situation example_facts) \<and>
   get_angle ''meter_malfunction'' \<noteq> None"
proof -
  have h: "''meter_malfunction'' \<in> set (analyze_situation example_facts)"
    by (simp add: example_facts_classified)
  with classify_within_catalog [of example_facts] show ?thesis
    by blast
qed

text \<open>
  Claim C10. The classifier depends only on the truthiness of the nineteen trigger facts:
  two fact mappings that agree on the truthiness of each of them are classified alike,
  whatever other keys and values they hold.
\<close>

theorem classify_depends_on_triggers:
  "\<forall>k\<in>set trigger_keys. flag a k = flag b k \<Longrightarrow> analyze_situation a = analyze_situation b"
  using spec_classify_cong [of a b] by (simp add: analyze_situation_rules)

theorem classify_depends_on_triggers_witness:
  "list_all (\<lambda>k.
      flag [(''unclear_signage'', PBool True), (''citation_number'', PStr ''A1'')] k =
      flag [(''fine_amount'', PInt 65), (''unclear_signage'', PStr ''yes'')] k) trigger_keys \<and>
   analyze_situation [(''unclear_signage'', PBool True), (''citation_number'', PStr ''A1'')] =
   analyze_situation [(''fine_amount'', PInt 65), (''unclear_signage'', PStr ''yes'')]"
proof -
  have h: "\<forall>k\<in>set trigger_keys.
      flag [(''unclear_signage'', PBool True), (''citation_number'', PStr ''A1'')] k =
      flag [(''fine_amount'', PInt 65), (''unclear_signage'', PStr ''yes'')] k"
    by (simp add: trigger_keys_def flag_Nil flag_Cons)
  from classify_depends_on_triggers [OF h] h show ?thesis
    by (simp add: list_all_iff)
qed

section \<open>Properties of the evaluator\<close>

lemma count_evidence_filter:
  "count_evidence items ev c =
     c + length (filter (\<lambda>item. truthy (dict_get ev (evidence_key item))) items)"
  by (induction items arbitrary: c) simp_all

lemma get_angle_strength_Some:
  assumes "get_angle k = Some a"
  shows "get_angle_strength k ev =
     (if ratio a ev \<ge> 7 / 10 then ''strong''
      else if ratio a ev \<ge> 4 / 10 then ''moderate'' else ''weak'')"
proof -
  have c: "count_evidence (required_evidence a) ev 0 = matches a ev"
    by (simp add: count_evidence_filter matches_def)
  have r: "(if required_evidence a \<noteq> []
            then rat_of_nat (matches a ev) / rat_of_nat (length (required_evidence a))
            else 0) = ratio a ev"
    unfolding ratio_def by (cases "required_evidence a = []") (simp_all only: if_True if_False simp_thms)
  show ?thesis
    unfolding get_angle_strength_def assms option.case Let_def c r ..
qed

lemma get_angle_strength_None: "get_angle k = None \<Longrightarrow> get_angle_strength k ev = ''weak''"
  by (simp add: get_angle_strength_def)

lemma get_angle_emergency:
  "get_angle ''emergency_circumstances'' = Some angle_emergency_circumstances"
  by (simp add: get_angle_def APPEAL_ANGLES_def)

lemma get_angle_signage: "get_angle ''signage_issues'' = Some angle_signage_issues"
  by (simp add: get_angle_def APPEAL_ANGLES_def)

lemma evidence_keys_emergency:
  "map evidence_key (required_evidence angle_emergency_circumstances) =
     [''medical_records_or_doctor's_note'', ''police_report_if_applicable'',
      ''tow_truck_receipt_or_mechanic_report'', ''photos_showing_vehicle_condition'',
      ''witness_statements_if_available'']"
  by (simp add: angle_emergency_circumstances_def evidence_key_def lower_def replace_def lower_char_def)

lemma evidence_keys_signage:
  "map evidence_key (required_evidence angle_signage_issues) =
     [''photos_showing_parking_spot_and_nearby_signage'',
      ''photos_of_any_obstructions_or_damaged_signs'',
      ''photos_showing_perspective_from_driver's_position'',
      ''multiple_angles_showing_sign_placement'']"
  by (simp add: angle_signage_issues_def evidence_key_def lower_def replace_def lower_char_def)

lemma matches_keys:
  "matches a ev = length (filter (\<lambda>k. truthy (dict_get ev k)) (map evidence_key (required_evidence a)))"
  by (simp add: matches_def filter_map comp_def)

lemma length_required_keys: "length (required_evidence a) = length (map evidence_key (required_evidence a))"
  by simp

lemma ratio_emergency_two:
  "ratio angle_emergency_circumstances
     (dict_set example_evidence ''police_report_if_applicable'' (PStr ''Report 17-204'')) = 4 / 10"
proof -
  have "required_evidence angle_emergency_circumstances \<noteq> []"
    by (simp add: angle_emergency_circumstances_def)
  then show ?thesis
    unfolding ratio_def matches_keys length_required_keys [of angle_emergency_circumstances]
      evidence_keys_emergency
    by (simp add: example_evidence_def dict_get_def)
qed

lemma ratio_emergency_one:
  "ratio angle_emergency_circumstances example_evidence = 2 / 10"
proof -
  have "required_evidence angle_emergency_circumstances \<noteq> []"
    by (simp add: angle_emergency_circumstances_def)
  then show ?thesis
    unfolding ratio_def matches_keys length_required_keys [of angle_emergency_circumstances]
      evidence_keys_emergency
    by (simp add: example_evidence_def dict_get_def)
qed

lemma ratio_signage_three:
  "ratio angle_signage_issues example_signage_evidence = 3 / 4"
proof -
  have "required_evidence angle_signage_issues \<noteq> []"
    by (simp add: angle_signage_issues_def)
  then show ?thesis
    unfolding ratio_def matches_keys length_required_keys [of angle_signage_issues]
      evidence_keys_signage
    by (simp add: example_signage_evidence_def dict_get_def)
qed

text \<open>
  Claim C3. The evaluator answers weak for an unknown angle key. For a known angle it counts
  the required-evidence items whose derived key (lower-cased, spaces replaced by
  underscores) has a truthy value in the evidence, takes the ratio of that count to the
  number of required items (0 for an empty list), and answers strong exactly when the ratio
  is at least 0.7, moderate exactly when it is at least 0.4 and below 0.7, weak exactly
  when it is below 0.4; a ratio of exactly 0.7 is strong and of exactly 0.4 is moderate.
\<close>

theorem strength_bands:
  "(get_angle k = None \<longrightarrow> get_angle_strength k ev = ''weak'') \<and>
   (get_angle k = Some a \<longrightarrow>
      (get_angle_strength k ev = ''strong'' \<longleftrightarrow> ratio a ev \<ge> 7 / 10) \<and>
      (get_angle_strength k ev = ''moderate'' \<longleftrightarrow> 4 / 10 \<le> ratio a ev \<and> ratio a ev < 7 / 10) \<and>
      (get_angle_strength k ev = ''weak'' \<longleftrightarrow> ratio a ev < 4 / 10) \<and>
      (ratio a ev = 7 / 10 \<longrightarrow> get_angle_strength k ev = ''strong'') \<and>
      (ratio a ev = 4 / 10 \<longrightarrow> get_angle_strength k ev = ''moderate'')) \<and>
   (required_evidence a = [] \<longrightarrow> ratio a ev = 0) \<and>
   (required_evidence a \<noteq> [] \<longrightarrow>
      ratio a ev = rat_of_nat (matches a ev) / rat_of_nat (length (required_evidence a)))"
proof -
  have "get_angle_strength k ev = ''weak''" if "get_angle k = None"
    using that by (rule get_angle_strength_None)
  moreover have "(get_angle_strength k ev = ''strong'' \<longleftrightarrow> ratio a ev \<ge> 7 / 10) \<and>
      (get_angle_strength k ev = ''moderate'' \<longleftrightarrow> 4 / 10 \<le> ratio a ev \<and> ratio a ev < 7 / 10) \<and>
      (get_angle_strength k ev = ''weak'' \<longleftrightarrow> ratio a ev < 4 / 10) \<and>
      (ratio a ev = 7 / 10 \<longrightarrow> get_angle_strength k ev = ''strong'') \<and>
      (ratio a ev = 4 / 10 \<longrightarrow> get_angle_strength k ev = ''moderate'')"
    if "get_angle k = Some a"
    unfolding get_angle_strength_Some [OF that] by auto
  moreover have "required_evidence a = [] \<longrightarrow> ratio a ev = 0"
    by (simp add: ratio_def)
  moreover have "required_evidence a \<noteq> [] \<longrightarrow>
      ratio a ev = rat_of_nat (matches a ev) / rat_of_nat (length (required_evidence a))"
    by (simp add: ratio_def)
  ultimately show ?thesis by blast
qed

theorem strength_bands_witness:
  "get_angle ''no_such_angle'' = None \<and>
   get_angle_strength ''no_such_angle'' example_evidence = ''weak'' \<and>
   get_angle ''emergency_circumstances'' = Some angle_emergency_circumstances \<and>
   ratio angle_emergency_circumstances
     (dict_set example_evidence ''police_report_if_applicable'' (PStr ''Report 17-204'')) = 4 / 10 \<and>
   get_angle_strength ''emergency_circumstances''
     (dict_set example_evidence ''police_report_if_applicable'' (PStr ''Report 17-204'')) = ''moderate'' \<and>
   get_angle ''signage_issues'' = Some angle_signage_issues \<and>
   ratio angle_signage_issues example_signage_evidence = 3 / 4 \<and>
   get_angle_strength ''signage_issues'' example_signage_evidence = ''strong'' \<and>
   get_angle_strength ''signage_issues'' [] = ''weak''"
proof -
  have n: "get_angle ''no_such_angle'' = None"
    by (simp add: get_angle_def APPEAL_ANGLES_def)
  have w: "get_angle_strength ''no_such_angle'' example_evidence = ''weak''"
    using strength_bands [of "''no_such_angle''" example_evidence angle_signage_issues] n
    by blast
  have m: "get_angle_strength ''emergency_circumstances''
     (dict_set example_evidence ''police_report_if_applicable'' (PStr ''Report 17-204'')) = ''moderate''"
    using strength_bands [of "''emergency_circumstances''"
        "dict_set example_evidence ''police_report_if_applicable'' (PStr ''Report 17-204'')"
        angle_emergency_circumstances]
      get_angle_emergency ratio_emergency_two
    by blast
  have "(7 :: rat) / 10 \<le> 3 / 4"
    by simp
  then have s: "get_angle_strength ''signage_issues'' example_signage_evidence = ''strong''"
    using strength_bands [of "''signage_issues''" example_signage_evidence angle_signage_issues]
      get_angle_signage ratio_signage_three
    by simp
  have "ratio angle_signage_issues [] = 0"
    by (simp add: ratio_def matches_def dict_get_def)
  then have "ratio angle_signage_issues [] < 4 / 10"
    by simp
  then have z: "get_angle_strength ''signage_issues'' [] = ''weak''"
    using strength_bands [of "''signage_issues''" "[]" angle_signage_issues] get_angle_signage
    by blast
  from n w m s z get_angle_emergency ratio_emergency_two get_angle_signage ratio_signage_three
  show ?thesis by blast
qed

lemma map_of_dict_set: "map_of (dict_set d k v) = (map_of d)(k \<mapsto> v)"
  by (induction d) (auto simp: fun_eq_iff)

lemma dict_get_dict_set:
  "dict_get (dict_set d k v) x = (if x = k then v else dict_get d x)"
  by (simp add: dict_get_def map_of_dict_set)

lemma length_filter_mono:
  "(\<And>x. x \<in> set xs \<Longrightarrow> P x \<Longrightarrow> Q x) \<Longrightarrow> length (filter P xs) \<le> length (filter Q xs)"
  by (induction xs) auto

lemma matches_mono: "truthy v \<Longrightarrow> matches a ev \<le> matches a (dict_set ev key v)"
  unfolding matches_def
  by (rule length_filter_mono) (simp add: dict_get_dict_set)

lemma ratio_mono:
  assumes "truthy v"
  shows "ratio a ev \<le> ratio a (dict_set ev key v)"
proof (cases "required_evidence a = []")
  case True
  then show ?thesis by (simp add: ratio_def)
next
  case False
  have "rat_of_nat (matches a ev) \<le> rat_of_nat (matches a (dict_set ev key v))"
    using matches_mono [OF assms] by simp
  then show ?thesis
    using False by (simp add: ratio_def divide_right_mono)
qed

lemma band_rank_mono:
  fixes r r' :: rat
  assumes "r \<le> r'"
  shows "band_rank (if r \<ge> 7 / 10 then ''strong'' else if r \<ge> 4 / 10 then ''moderate'' else ''weak'')
       \<le> band_rank (if r' \<ge> 7 / 10 then ''strong'' else if r' \<ge> 4 / 10 then ''moderate'' else ''weak'')"
  using assms by (auto simp: band_rank_def)

text \<open>
  Claim C6. The evaluator is monotone in the evidence: storing a truthy value under an
  evidence key never moves the band of any angle down, in the order weak, moderate, strong.
\<close>

theorem strength_monotone:
  "truthy v \<Longrightarrow>
     band_rank (get_angle_strength k ev) \<le> band_rank (get_angle_strength k (dict_set ev key v))"
proof (cases "get_angle k")
  case None
  then show ?thesis by (simp add: get_angle_strength_None)
next
  case (Some a)
  assume "truthy v"
  then have "ratio a ev \<le> ratio a (dict_set ev key v)"
    by (rule ratio_mono)
  then show ?thesis
    unfolding get_angle_strength_Some [OF Some] by (rule band_rank_mono)
qed

theorem strength_monotone_witness:
  "truthy (PStr ''Report 17-204'') \<and>
   get_angle_strength ''emergency_circumstances'' example_evidence = ''weak'' \<and>
   get_angle_strength ''emergency_circumstances''
     (dict_set example_evidence ''police_report_if_applicable'' (PStr ''Report 17-204'')) = ''moderate'' \<and>
   band_rank (get_angle_strength ''emergency_circumstances'' example_evidence) \<le>
   band_rank (get_angle_strength ''emergency_circumstances''
     (dict_set example_evidence ''police_report_if_applicable'' (PStr ''Report 17-204'')))"
proof -
  have t: "truthy (PStr ''Report 17-204'')"
    by simp
  have a: "get_angle_strength ''emergency_circumstances'' example_evidence = ''weak''"
    unfolding get_angle_strength_Some [OF get_angle_emergency] ratio_emergency_one by simp
  have b: "get_angle_strength ''emergency_circumstances''
     (dict_set example_evidence ''police_report_if_applicable'' (PStr ''Report 17-204'')) = ''moderate''"
    unfolding get_angle_strength_Some [OF get_angle_emergency] ratio_emergency_two by simp
  from strength_monotone [OF t, of "''emergency_circumstances''" example_evidence
      "''police_report_if_applicable''"] t a b
  show ?thesis by blast
qed

section \<open>Properties of the jurisdiction catalog\<close>

lemma no_city_without_name: "get_city_info [] = None"
  by (simp add: get_city_info_def CITY_REGULATIONS_def)

lemma city_field:
  "city (get_combined_info c s) =
     (case c of
        None \<Rightarrow> None
      | Some cn \<Rightarrow>
          (case get_city_info cn of
             None \<Rightarrow> None
           | Some ci \<Rightarrow> if city_state ci = upper s then Some ci else None))"
  using no_city_without_name
  by (auto simp: get_combined_info_def Let_def split: option.splits)

lemma upper_CA: "upper ''CA'' = ''CA''" and upper_NY: "upper ''NY'' = ''NY''"
  and upper_ca: "upper ''ca'' = ''CA''"
  by (simp_all add: upper_def upper_char_def)

lemma get_city_SF: "get_city_info ''San Francisco'' = Some city_San_Francisco"
  by (simp add: get_city_info_def CITY_REGULATIONS_def)

lemma city_state_SF: "city_state city_San_Francisco = ''CA''"
  by (simp add: city_San_Francisco_def)

text \<open>
  Claim C4. For every optional city name and every state code, the combined lookup gives
  the state record stored under the upper-cased code (none if the code is unknown; codes
  that differ only in case give the same record) and the fixed common-grounds list. Its
  city field holds a record exactly when a city record is stored under the given name as
  written and that record's state code equals the upper-cased state code; otherwise it is
  absent. San Francisco with CA has its city record, San Francisco with NY has none.
\<close>

theorem jurisdiction_merge:
  "state (get_combined_info c s) = map_of STATE_REGULATIONS (upper s) \<and>
   (upper s = upper s' \<longrightarrow>
      state (get_combined_info c s) = state (get_combined_info c' s')) \<and>
   available_grounds (get_combined_info c s) = COMMON_APPEAL_GROUNDS \<and>
   (\<forall>ci. city (get_combined_info c s) = Some ci \<longleftrightarrow>
      (\<exists>cn. c = Some cn \<and> map_of CITY_REGULATIONS cn = Some ci \<and> city_state ci = upper s)) \<and>
   (city (get_combined_info c s) = None \<longleftrightarrow>
      \<not> (\<exists>cn ci. c = Some cn \<and> map_of CITY_REGULATIONS cn = Some ci \<and> city_state ci = upper s)) \<and>
   city (get_combined_info (Some ''San Francisco'') ''CA'') = Some city_San_Francisco \<and>
   city (get_combined_info (Some ''San Francisco'') ''NY'') = None"
proof -
  have st: "state (get_combined_info c s) = map_of STATE_REGULATIONS (upper s)" for c s
    by (simp add: get_combined_info_def get_state_info_def Let_def split: option.splits)
  have gr: "available_grounds (get_combined_info c s) = COMMON_APPEAL_GROUNDS"
    by (simp add: get_combined_info_def Let_def split: option.splits)
  have ci: "city (get_combined_info c s) = Some ci \<longleftrightarrow>
      (\<exists>cn. c = Some cn \<and> map_of CITY_REGULATIONS cn = Some ci \<and> city_state ci = upper s)" for ci
    unfolding city_field by (auto simp: get_city_info_def split: option.splits)
  have cn: "city (get_combined_info c s) = None \<longleftrightarrow>
      \<not> (\<exists>cn ci. c = Some cn \<and> map_of CITY_REGULATIONS cn = Some ci \<and> city_state ci = upper s)"
    unfolding city_field by (auto simp: get_city_info_def split: option.splits)
  have sf: "city (get_combined_info (Some ''San Francisco'') ''CA'') = Some city_San_Francisco"
    unfolding city_field by (simp add: get_city_SF city_state_SF upper_CA)
  have ny: "city (get_combined_info (Some ''San Francisco'') ''NY'') = None"
    unfolding city_field by (simp add: get_city_SF city_state_SF upper_NY)
  from st gr ci cn sf ny show ?thesis
    by simp
qed

theorem jurisdiction_merge_witness:
  "upper ''ca'' = upper ''CA'' \<and>
   state (get_combined_info (Some ''San Francisco'') ''ca'') = Some state_CA \<and>
   city (get_combined_info (Some ''San Francisco'') ''ca'') = Some city_San_Francisco \<and>
   state (get_combined_info None ''zz'') = None \<and>
   city (get_combined_info (Some ''san francisco'') ''CA'') = None"
proof -
  have u: "upper ''ca'' = upper ''CA''"
    by (simp add: upper_ca upper_CA)
  have a: "map_of STATE_REGULATIONS (upper ''ca'') = Some state_CA"
    by (simp add: upper_ca STATE_REGULATIONS_def)
  have b: "map_of CITY_REGULATIONS ''San Francisco'' = Some city_San_Francisco \<and>
           city_state city_San_Francisco = upper ''ca''"
    using get_city_SF by (simp add: get_city_info_def city_state_SF upper_ca)
  have z: "map_of STATE_REGULATIONS (upper ''zz'') = None"
    by (simp add: upper_def upper_char_def STATE_REGULATIONS_def)
  have l: "map_of CITY_REGULATIONS ''san francisco'' = None"
    by (simp add: CITY_REGULATIONS_def)
  from jurisdiction_merge [of "Some ''San Francisco''" "''ca''" "''CA''" "Some ''San Francisco''"] a b
  have 1: "state (get_combined_info (Some ''San Francisco'') ''ca'') = Some state_CA"
    and 2: "city (get_combined_info (Some ''San Francisco'') ''ca'') = Some city_San_Francisco"
    by auto
  from jurisdiction_merge [of None "''zz''" "''zz''" None] z
  have 3: "state (get_combined_info None ''zz'') = None"
    by simp
  from jurisdiction_merge [of "Some ''san francisco''" "''CA''" "''CA''" None] l
  have 4: "city (get_combined_info (Some ''san francisco'') ''CA'') = None"
    by auto
  from u 1 2 3 4 show ?thesis by blast
qed

section \<open>Properties of the request operations\<close>

lemma unknown_state_ZZ: "state (get_combined_info c ''ZZ'') = None"
  by (simp add: get_combined_info_def get_state_info_def Let_def upper_def upper_char_def
      STATE_REGULATIONS_def split: option.splits)

text \<open>
  Claim C8, at the input where it fails. The claim is that every core operation returns a
  value for every input of its domain. For a state code that the catalog does not know,
  the combined lookup gives an absent state, as the claim says; the comprehensive request
  given that jurisdiction raises \<open>AttributeError\<close> while it assembles its text, before
  the generation capability is called. The single-angle assembly tests the state record
  before reading it and returns a text for the same jurisdiction.
\<close>

theorem comprehensive_raises_for_unknown_state:
  "state (get_combined_info None ''ZZ'') = None \<and>
   generate_comprehensive_appeal gen g quick_facts (get_combined_info None ''ZZ'')
     [''procedural_error'', ''first_time_leniency''] [] = (Inl AttributeError, g)"
  by (simp add: generate_comprehensive_appeal_def comprehensive_prompt_def unknown_state_ZZ)










lemma get_angle_first_time:
  "get_angle ''first_time_leniency'' = Some angle_first_time_leniency"
  by (simp add: get_angle_def APPEAL_ANGLES_def)


lemma state_CA_info: "state (get_combined_info None ''CA'') = Some state_CA"
  by (simp add: get_combined_info_def get_state_info_def Let_def upper_def upper_char_def
      STATE_REGULATIONS_def)





section \<open>Properties of the batch and of the request text\<close>

lemma sublist_in_left: "sublist xs ys \<Longrightarrow> sublist xs (ys @ zs)"
  unfolding sublist_def by (metis append_assoc)

lemma sublist_in_right: "sublist xs zs \<Longrightarrow> sublist xs (ys @ zs)"
  unfolding sublist_def by (metis append_assoc)

lemma sublist_in_Cons: "sublist xs zs \<Longrightarrow> sublist xs (y # zs)"
  using sublist_in_right [of xs zs "[y]"] by simp

lemma sublist_chain: "sublist xs ys \<Longrightarrow> sublist ys zs \<Longrightarrow> sublist xs zs"
  unfolding sublist_def by (metis append_assoc)

lemma in_detail_lines:
  "(k, v) \<in> set d \<Longrightarrow> truthy v \<Longrightarrow> sublist (detail_line k v) (detail_lines d)"
proof (induction d)
  case Nil
  then show ?case by simp
next
  case (Cons x d)
  obtain k' v' where x: "x = (k', v')" by (cases x)
  show ?case
  proof (cases "(k, v) = (k', v')")
    case True
    with Cons.prems show ?thesis
      unfolding x by simp
  next
    case False
    with Cons.prems have "(k, v) \<in> set d"
      unfolding x by auto
    with Cons have "sublist (detail_line k v) (detail_lines d)"
      by blast
    then show ?thesis
      unfolding x by (simp add: sublist_in_right)
  qed
qed

lemma in_bullet_lines: "x \<in> set xs \<Longrightarrow> sublist x (bullet_lines xs)"
proof (induction xs)
  case Nil
  then show ?case by simp
next
  case (Cons y ys)
  show ?case
  proof (cases "x = y")
    case True
    have "sublist x (''- '' @ x @ (''\<newline>'' @ bullet_lines ys))"
      by (rule sublist_appendI)
    then show ?thesis
      using True by (simp add: bullet_lines_def)
  next
    case False
    with Cons have "sublist x (bullet_lines ys)"
      by simp
    then have "sublist x ((''- '' @ y @ ''\<newline>'') @ bullet_lines ys)"
      by (rule sublist_in_right)
    then show ?thesis
      by (simp add: bullet_lines_def)
  qed
qed

lemma value_in_detail_line:
  "sublist (title (replace CHR ''_'' CHR '' '' k) @ '': '' @ str_of_val v) (detail_line k v)"
proof -
  have "sublist (title (replace CHR ''_'' CHR '' '' k) @ '': '' @ str_of_val v)
     (''- '' @ (title (replace CHR ''_'' CHR '' '' k) @ '': '' @ str_of_val v) @ ''\<newline>'')"
    by (rule sublist_appendI)
  then show ?thesis
    by (simp add: detail_line_def)
qed

lemma sublist_skip5: "sublist xs (a1 @ a2 @ a3 @ a4 @ a5 @ xs @ r)"
  using sublist_appendI [of xs "a1 @ a2 @ a3 @ a4 @ a5" r] by simp

lemma sublist_skip7: "sublist xs (a1 @ a2 @ a3 @ a4 @ a5 @ a6 @ a7 @ xs @ r)"
  using sublist_appendI [of xs "a1 @ a2 @ a3 @ a4 @ a5 @ a6 @ a7" r] by simp

lemma sublist_skip8: "sublist xs (a1 @ a2 @ a3 @ a4 @ a5 @ a6 @ a7 @ a8 @ xs @ r)"
  using sublist_appendI [of xs "a1 @ a2 @ a3 @ a4 @ a5 @ a6 @ a7 @ a8" r] by simp

lemma sublist_skip10:
  "sublist xs (a1 @ a2 @ a3 @ a4 @ a5 @ a6 @ a7 @ a8 @ a9 @ a10 @ xs @ r)"
  using sublist_appendI [of xs "a1 @ a2 @ a3 @ a4 @ a5 @ a6 @ a7 @ a8 @ a9 @ a10" r] by simp

lemma prompt_has_name: "sublist (name a) (build_appeal_prompt cd li a ev)"
  unfolding build_appeal_prompt_def by (rule sublist_appendI)

lemma prompt_has_facts: "sublist (detail_lines cd) (build_appeal_prompt cd li a ev)"
  unfolding build_appeal_prompt_def by (rule sublist_skip5)

lemma prompt_has_evidence: "sublist (detail_lines ev) (build_appeal_prompt cd li a ev)"
  unfolding build_appeal_prompt_def by (rule sublist_skip10)

lemma prompt_has_entry:
  assumes "(k, v) \<in> set d" and "truthy v"
    and "sublist (detail_lines d) prompt"
  shows "sublist (title (replace CHR ''_'' CHR '' '' k) @ '': '' @ str_of_val v) prompt"
  using value_in_detail_line in_detail_lines [OF assms(1,2)] assms(3)
  by (blast intro: sublist_chain)

lemma prompt_has_state:
  assumes "state li = Some s"
  shows "sublist (''State: '' @ st_name s @ ''\<newline>'' @
          ''Appeal Deadline: '' @ str_of_int (statute_limitations_days s) @
          '' days from citation\<newline>'' @
          (if common_defenses s \<noteq> []
           then ''\<newline>Relevant State Regulations:\<newline>'' @ bullet_lines (common_defenses s)
           else []))
        (build_appeal_prompt cd li a ev)"
  unfolding build_appeal_prompt_def assms option.case by (rule sublist_skip7)

lemma prompt_has_state_fields:
  assumes "state li = Some s"
  shows "sublist (st_name s) (build_appeal_prompt cd li a ev)"
    and "sublist (str_of_int (statute_limitations_days s)) (build_appeal_prompt cd li a ev)"
    and "d \<in> set (common_defenses s) \<Longrightarrow> sublist d (build_appeal_prompt cd li a ev)"
proof -
  note whole = prompt_has_state [OF assms, of cd a ev]
  show "sublist (st_name s) (build_appeal_prompt cd li a ev)"
    by (rule sublist_chain [OF _ whole]) (rule sublist_appendI)
  have "sublist (str_of_int (statute_limitations_days s))
     ((''State: '' @ st_name s @ ''\<newline>'' @ ''Appeal Deadline: '') @
      str_of_int (statute_limitations_days s) @
      ('' days from citation\<newline>'' @
          (if common_defenses s \<noteq> []
           then ''\<newline>Relevant State Regulations:\<newline>'' @ bullet_lines (common_defenses s)
           else [])))"
    by (rule sublist_appendI)
  then show "sublist (str_of_int (statute_limitations_days s)) (build_appeal_prompt cd li a ev)"
    by (intro sublist_chain [OF _ whole]) (simp only: append_assoc)
  assume d: "d \<in> set (common_defenses s)"
  then have ne: "common_defenses s \<noteq> []"
    by auto
  have "sublist d
     ((''State: '' @ st_name s @ ''\<newline>'' @
          ''Appeal Deadline: '' @ str_of_int (statute_limitations_days s) @
          '' days from citation\<newline>'' @ ''\<newline>Relevant State Regulations:\<newline>'') @
       bullet_lines (common_defenses s))"
    using in_bullet_lines [OF d] by (rule sublist_in_right)
  then show "sublist d (build_appeal_prompt cd li a ev)"
    using ne by (intro sublist_chain [OF _ whole]) (simp only: append_assoc if_True simp_thms)
qed

lemma prompt_has_city:
  assumes "city li = Some c"
  shows "sublist (''\<newline>City-Specific Information:\<newline>'' @
          (if specific_rules c \<noteq> [] then bullet_lines (specific_rules c) else []) @
          ''Online Appeal Available: '' @ str_of_bool (online_appeal c) @ ''\<newline>'')
        (build_appeal_prompt cd li a ev)"
  unfolding build_appeal_prompt_def assms option.case by (rule sublist_skip8)

lemma prompt_has_city_fields:
  assumes "city li = Some c"
  shows "r \<in> set (specific_rules c) \<Longrightarrow> sublist r (build_appeal_prompt cd li a ev)"
    and "sublist (''Online Appeal Available: '' @ str_of_bool (online_appeal c))
           (build_appeal_prompt cd li a ev)"
proof -
  note whole = prompt_has_city [OF assms, of cd a ev]
  have "sublist (''Online Appeal Available: '' @ str_of_bool (online_appeal c))
     ((''\<newline>City-Specific Information:\<newline>'' @
          (if specific_rules c \<noteq> [] then bullet_lines (specific_rules c) else [])) @
      (''Online Appeal Available: '' @ str_of_bool (online_appeal c)) @ ''\<newline>'')"
    by (rule sublist_appendI)
  then show "sublist (''Online Appeal Available: '' @ str_of_bool (online_appeal c))
           (build_appeal_prompt cd li a ev)"
    by (intro sublist_chain [OF _ whole]) (simp only: append_assoc)
  assume r: "r \<in> set (specific_rules c)"
  then have ne: "specific_rules c \<noteq> []"
    by auto
  have "sublist (bullet_lines (specific_rules c))
     (''\<newline>City-Specific Information:\<newline>'' @ bullet_lines (specific_rules c) @
      (''Online Appeal Available: '' @ str_of_bool (online_appeal c) @ ''\<newline>''))"
    by (rule sublist_appendI)
  with in_bullet_lines [OF r] have "sublist r
     (''\<newline>City-Specific Information:\<newline>'' @ bullet_lines (specific_rules c) @
      (''Online Appeal Available: '' @ str_of_bool (online_appeal c) @ ''\<newline>''))"
    by (rule sublist_chain)
  then show "sublist r (build_appeal_prompt cd li a ev)"
    using ne by (intro sublist_chain [OF _ whole]) (simp only: if_True simp_thms)
qed

lemma loop_fold:
  "multi_angle_loop gen cd li ev ks appeals g =
     fold (\<lambda>a (d, g). case generate_single_angle_appeal gen g cd li a ev of
                          (t, g') \<Rightarrow> (dict_set d (name a) t, g'))
       (List.map_filter get_angle ks) (appeals, g)"
  by (induction ks arbitrary: appeals g)
     (simp_all add: List.map_filter_simps split: option.splits prod.splits)

lemma single_recording:
  "generate_single_angle_appeal recording_generation received cd li a ev =
     (build_appeal_prompt cd li a ev, received @ [build_appeal_prompt cd li a ev])"
  by (simp add: generate_single_angle_appeal_def recording_generation_def Let_def)

lemma loop_recording:
  "snd (multi_angle_loop recording_generation cd li ev ks appeals received) =
     received @ map (\<lambda>a. build_appeal_prompt cd li a ev) (List.map_filter get_angle ks)"
  by (induction ks arbitrary: appeals received)
     (simp_all add: List.map_filter_simps single_recording split: option.splits)

lemma angle_names_distinct: "distinct (map (\<lambda>x. name (snd x)) APPEAL_ANGLES)"
  by (simp add: APPEAL_ANGLES_def angle_procedural_error_def angle_signage_issues_def
      angle_meter_malfunction_def angle_emergency_circumstances_def
      angle_payment_display_issue_def angle_zone_confusion_def angle_first_time_leniency_def
      angle_disability_accommodation_def angle_time_discrepancy_def)

lemma angle_name_inj:
  assumes "get_angle k1 = Some a1" and "get_angle k2 = Some a2" and "name a1 = name a2"
  shows "k1 = k2"
proof -
  have m1: "(k1, a1) \<in> set APPEAL_ANGLES" and m2: "(k2, a2) \<in> set APPEAL_ANGLES"
    using assms(1,2) unfolding get_angle_def by (auto dest: map_of_SomeD)
  have inj: "inj_on (\<lambda>x. name (snd x)) (set APPEAL_ANGLES)"
    using angle_names_distinct by (simp add: distinct_map)
  have "(\<lambda>x. name (snd x)) (k1, a1) = (\<lambda>x. name (snd x)) (k2, a2)"
    using assms(3) by simp
  from inj_onD [OF inj this m1 m2] have "(k1, a1) = (k2, a2)" .
  then show ?thesis by simp
qed

lemma batch_same_key_twice:
  assumes "get_angle k = Some a"
  shows "generate_multi_angle_appeal gen g cd li [k, k] ev =
     (case generate_single_angle_appeal gen g cd li a ev of
        (t1, g1) \<Rightarrow>
          (case generate_single_angle_appeal gen g1 cd li a ev of
             (t2, g2) \<Rightarrow> ([(name a, t2)], g2)))"
  using assms by (simp add: generate_multi_angle_appeal_def split: prod.splits)

lemma batch_two_keys:
  assumes "get_angle k1 = Some a1" and "get_angle k2 = Some a2" and "k1 \<noteq> k2"
  shows "generate_multi_angle_appeal gen g cd li [k1, k2] ev =
     (case generate_single_angle_appeal gen g cd li a1 ev of
        (t1, g1) \<Rightarrow>
          (case generate_single_angle_appeal gen g1 cd li a2 ev of
             (t2, g2) \<Rightarrow> ([(name a1, t1), (name a2, t2)], g2)))"
proof -
  have "name a1 \<noteq> name a2"
    using angle_name_inj [OF assms(1,2)] assms(3) by blast
  with assms(1,2) show ?thesis
    by (simp add: generate_multi_angle_appeal_def split: prod.splits)
qed

lemma batch_two_keys_recording:
  assumes "get_angle k1 = Some a1" and "get_angle k2 = Some a2" and "k1 \<noteq> k2"
  shows "fst (generate_multi_angle_appeal recording_generation [] cd li [k1, k2] ev) =
     [(name a1, build_appeal_prompt cd li a1 ev), (name a2, build_appeal_prompt cd li a2 ev)]"
  unfolding batch_two_keys [OF assms] single_recording by simp

lemma loop_append:
  "multi_angle_loop gen cd li ev (ks @ ks') appeals g =
     (case multi_angle_loop gen cd li ev ks appeals g of
        (d, g') \<Rightarrow> multi_angle_loop gen cd li ev ks' d g')"
  by (induction ks arbitrary: appeals g) (simp_all split: option.splits prod.splits)

lemma map_of_dict_set_same: "map_of (dict_set d k v) k = Some v"
  by (simp add: map_of_dict_set)

lemma batch_last_request_wins:
  assumes "get_angle k = Some a"
  shows "map_of (fst (generate_multi_angle_appeal gen g cd li (ks @ [k]) ev)) (name a) =
     Some (fst (generate_single_angle_appeal gen
                 (snd (generate_multi_angle_appeal gen g cd li ks ev)) cd li a ev))"
  using assms
  by (simp add: generate_multi_angle_appeal_def loop_append map_of_dict_set_same
      split: prod.splits)

text \<open>
  Claim C7, as amended. For every list of angle keys the batch makes one single-angle
  request for each key that the catalog resolves, in list order and without removing
  repeated keys; a key the catalog does not know is skipped. Each text is stored under the
  angle's display name, so for a key given twice the text of the second request replaces
  that of the first: the entry of an angle holds the text of the last request made for it.
  Two distinct valid keys give exactly two entries. Each request text contains the angle's
  display name, every truthy fact and every truthy evidence entry as its title-cased key
  followed by the text that \<open>str\<close> gives for its value (a string value as it is), the
  state's name, its deadline and each of its defense citations, and each of the city's
  rules and its online-appeal flag. The request text does not depend on the state's appeal
  address format, on the city's fee-waiver flag or on the common-grounds list: changing any
  of them leaves it the same.
\<close>

theorem batch_requests:
  "generate_multi_angle_appeal gen g cd li ks ev =
     fold (\<lambda>a (d, g). case generate_single_angle_appeal gen g cd li a ev of
                          (t, g') \<Rightarrow> (dict_set d (name a) t, g'))
       (List.map_filter get_angle ks) ([], g) \<and>
   snd (generate_multi_angle_appeal recording_generation [] cd li ks ev) =
     map (\<lambda>a. build_appeal_prompt cd li a ev) (List.map_filter get_angle ks) \<and>
   (get_angle k = Some a \<longrightarrow>
      generate_multi_angle_appeal gen g cd li [k, k] ev =
        (case generate_single_angle_appeal gen g cd li a ev of
           (t1, g1) \<Rightarrow>
             (case generate_single_angle_appeal gen g1 cd li a ev of
                (t2, g2) \<Rightarrow> ([(name a, t2)], g2))) \<and>
      map_of (fst (generate_multi_angle_appeal gen g cd li (ks @ [k]) ev)) (name a) =
        Some (fst (generate_single_angle_appeal gen
                    (snd (generate_multi_angle_appeal gen g cd li ks ev)) cd li a ev))) \<and>
   (get_angle ka = Some aa \<and> get_angle kb = Some ab \<and> ka \<noteq> kb \<longrightarrow>
      length (fst (generate_multi_angle_appeal gen g cd li [ka, kb] ev)) = 2 \<and>
      map fst (fst (generate_multi_angle_appeal gen g cd li [ka, kb] ev)) = [name aa, name ab] \<and>
      fst (generate_multi_angle_appeal recording_generation [] cd li [ka, kb] ev) =
        [(name aa, build_appeal_prompt cd li aa ev),
         (name ab, build_appeal_prompt cd li ab ev)]) \<and>
   sublist (name a) (build_appeal_prompt cd li a ev) \<and>
   (\<forall>(key, v)\<in>set cd. truthy v \<longrightarrow>
      sublist (title (replace CHR ''_'' CHR '' '' key) @ '': '' @ str_of_val v)
        (build_appeal_prompt cd li a ev)) \<and>
   (\<forall>(key, v)\<in>set ev. truthy v \<longrightarrow>
      sublist (title (replace CHR ''_'' CHR '' '' key) @ '': '' @ str_of_val v)
        (build_appeal_prompt cd li a ev)) \<and>
   (state li = Some s \<longrightarrow>
      sublist (st_name s) (build_appeal_prompt cd li a ev) \<and>
      sublist (str_of_int (statute_limitations_days s)) (build_appeal_prompt cd li a ev) \<and>
      (\<forall>d\<in>set (common_defenses s). sublist d (build_appeal_prompt cd li a ev))) \<and>
   (city li = Some c \<longrightarrow>
      (\<forall>r\<in>set (specific_rules c). sublist r (build_appeal_prompt cd li a ev)) \<and>
      sublist (''Online Appeal Available: '' @ str_of_bool (online_appeal c))
        (build_appeal_prompt cd li a ev)) \<and>
   build_appeal_prompt cd (li\<lparr>available_grounds := grounds\<rparr>) a ev =
     build_appeal_prompt cd li a ev \<and>
   (state li = Some s \<longrightarrow>
      build_appeal_prompt cd (li\<lparr>state := Some (s\<lparr>appeal_address_format := fmt\<rparr>)\<rparr>) a ev =
        build_appeal_prompt cd li a ev) \<and>
   (city li = Some c \<longrightarrow>
      build_appeal_prompt cd (li\<lparr>city := Some (c\<lparr>fee_waiver_available := waiver\<rparr>)\<rparr>) a ev =
        build_appeal_prompt cd li a ev)"
proof -
  have 1: "generate_multi_angle_appeal gen g cd li ks ev =
     fold (\<lambda>a (d, g). case generate_single_angle_appeal gen g cd li a ev of
                          (t, g') \<Rightarrow> (dict_set d (name a) t, g'))
       (List.map_filter get_angle ks) ([], g)"
    unfolding generate_multi_angle_appeal_def by (rule loop_fold)
  have 2: "snd (generate_multi_angle_appeal recording_generation [] cd li ks ev) =
     map (\<lambda>a. build_appeal_prompt cd li a ev) (List.map_filter get_angle ks)"
    unfolding generate_multi_angle_appeal_def loop_recording by simp
  have 3: "generate_multi_angle_appeal gen g cd li [k, k] ev =
        (case generate_single_angle_appeal gen g cd li a ev of
           (t1, g1) \<Rightarrow>
             (case generate_single_angle_appeal gen g1 cd li a ev of
                (t2, g2) \<Rightarrow> ([(name a, t2)], g2))) \<and>
      map_of (fst (generate_multi_angle_appeal gen g cd li (ks @ [k]) ev)) (name a) =
        Some (fst (generate_single_angle_appeal gen
                    (snd (generate_multi_angle_appeal gen g cd li ks ev)) cd li a ev))"
    if "get_angle k = Some a"
    by (intro conjI) (rule batch_same_key_twice [OF that], rule batch_last_request_wins [OF that])
  have 4: "length (fst (generate_multi_angle_appeal gen g cd li [ka, kb] ev)) = 2 \<and>
      map fst (fst (generate_multi_angle_appeal gen g cd li [ka, kb] ev)) = [name aa, name ab] \<and>
      fst (generate_multi_angle_appeal recording_generation [] cd li [ka, kb] ev) =
        [(name aa, build_appeal_prompt cd li aa ev),
         (name ab, build_appeal_prompt cd li ab ev)]"
    if "get_angle ka = Some aa \<and> get_angle kb = Some ab \<and> ka \<noteq> kb"
  proof -
    from that have h: "get_angle ka = Some aa" "get_angle kb = Some ab" "ka \<noteq> kb"
      by simp_all
    have "length (fst (generate_multi_angle_appeal gen g cd li [ka, kb] ev)) = 2 \<and>
      map fst (fst (generate_multi_angle_appeal gen g cd li [ka, kb] ev)) = [name aa, name ab]"
      unfolding batch_two_keys [OF h] by (simp split: prod.splits)
    with batch_two_keys_recording [OF h] show ?thesis
      by blast
  qed
  have 5: "\<forall>(key, v)\<in>set d. truthy v \<longrightarrow>
      sublist (title (replace CHR ''_'' CHR '' '' key) @ '': '' @ str_of_val v) p"
    if "sublist (detail_lines d) p" for d p
  proof (intro ballI, clarify)
    fix key v
    assume "(key, v) \<in> set d" and "truthy v"
    then show "sublist (title (replace CHR ''_'' CHR '' '' key) @ '': '' @ str_of_val v) p"
      using that by (rule prompt_has_entry)
  qed
  have 6: "sublist (st_name s) (build_appeal_prompt cd li a ev) \<and>
      sublist (str_of_int (statute_limitations_days s)) (build_appeal_prompt cd li a ev) \<and>
      (\<forall>d\<in>set (common_defenses s). sublist d (build_appeal_prompt cd li a ev))"
    if "state li = Some s"
    using prompt_has_state_fields [OF that] by blast
  have 7: "(\<forall>r\<in>set (specific_rules c). sublist r (build_appeal_prompt cd li a ev)) \<and>
      sublist (''Online Appeal Available: '' @ str_of_bool (online_appeal c))
        (build_appeal_prompt cd li a ev)"
    if "city li = Some c"
    using prompt_has_city_fields [OF that] by blast
  have 8: "build_appeal_prompt cd (li\<lparr>available_grounds := grounds\<rparr>) a ev =
     build_appeal_prompt cd li a ev"
    by (simp add: build_appeal_prompt_def)
  have 9: "build_appeal_prompt cd (li\<lparr>state := Some (s\<lparr>appeal_address_format := fmt\<rparr>)\<rparr>) a ev =
        build_appeal_prompt cd li a ev" if "state li = Some s"
    using that by (simp add: build_appeal_prompt_def)
  have 10: "build_appeal_prompt cd (li\<lparr>city := Some (c\<lparr>fee_waiver_available := waiver\<rparr>)\<rparr>) a ev =
        build_appeal_prompt cd li a ev" if "city li = Some c"
    using that by (simp add: build_appeal_prompt_def)
  show ?thesis
    using 1 2 3 4 prompt_has_name [of a cd li ev] 5 [OF prompt_has_facts [of cd li a ev]]
      5 [OF prompt_has_evidence [of ev cd li a]] 6 7 8 9 10
    by (intro conjI impI) blast+
qed

lemma state_SF_CA: "state (get_combined_info (Some ''San Francisco'') ''CA'') = Some state_CA"
  by (simp add: get_combined_info_def get_state_info_def get_city_info_def Let_def upper_def
      upper_char_def STATE_REGULATIONS_def CITY_REGULATIONS_def city_San_Francisco_def)

lemma city_SF_CA:
  "city (get_combined_info (Some ''San Francisco'') ''CA'') = Some city_San_Francisco"
  by (simp add: get_combined_info_def get_state_info_def get_city_info_def Let_def upper_def
      upper_char_def STATE_REGULATIONS_def CITY_REGULATIONS_def city_San_Francisco_def)

lemma title_citation_number: "title (replace CHR ''_'' CHR '' '' ''citation_number'') = ''Citation Number''"
  by (simp add: title_def replace_def upper_char_def lower_char_def is_cased_def)

lemma str_of_int_21: "str_of_int 21 = ''21''"
  by code_simp

theorem batch_requests_witness:
  "generate_multi_angle_appeal recording_generation [] quick_facts
       (get_combined_info (Some ''San Francisco'') ''CA'')
       [''signage_issues'', ''signage_issues''] example_signage_evidence =
     ([(''Inadequate or Confusing Signage'',
        build_appeal_prompt quick_facts (get_combined_info (Some ''San Francisco'') ''CA'')
          angle_signage_issues example_signage_evidence)],
      [build_appeal_prompt quick_facts (get_combined_info (Some ''San Francisco'') ''CA'')
          angle_signage_issues example_signage_evidence,
       build_appeal_prompt quick_facts (get_combined_info (Some ''San Francisco'') ''CA'')
          angle_signage_issues example_signage_evidence]) \<and>
   map fst (fst (generate_multi_angle_appeal recording_generation [] quick_facts
       (get_combined_info (Some ''San Francisco'') ''CA'')
       [''signage_issues'', ''first_time_leniency''] example_signage_evidence)) =
     [''Inadequate or Confusing Signage'', ''First-Time Violation / Good Record''] \<and>
   sublist ''Inadequate or Confusing Signage''
     (build_appeal_prompt quick_facts (get_combined_info (Some ''San Francisco'') ''CA'')
        angle_signage_issues example_signage_evidence) \<and>
   sublist ''Citation Number: A1''
     (build_appeal_prompt quick_facts (get_combined_info (Some ''San Francisco'') ''CA'')
        angle_signage_issues example_signage_evidence) \<and>
   sublist ''California''
     (build_appeal_prompt quick_facts (get_combined_info (Some ''San Francisco'') ''CA'')
        angle_signage_issues example_signage_evidence) \<and>
   sublist ''21''
     (build_appeal_prompt quick_facts (get_combined_info (Some ''San Francisco'') ''CA'')
        angle_signage_issues example_signage_evidence) \<and>
   sublist ''CVC 40215 - Notice of parking violation must be securely attached''
     (build_appeal_prompt quick_facts (get_combined_info (Some ''San Francisco'') ''CA'')
        angle_signage_issues example_signage_evidence) \<and>
   sublist ''Street cleaning violations - check SFMTA calendar''
     (build_appeal_prompt quick_facts (get_combined_info (Some ''San Francisco'') ''CA'')
        angle_signage_issues example_signage_evidence) \<and>
   sublist ''Online Appeal Available: True''
     (build_appeal_prompt quick_facts (get_combined_info (Some ''San Francisco'') ''CA'')
        angle_signage_issues example_signage_evidence) \<and>
   sublist ''Followup Q1: {'question': 'Was the sign visible?', 'answer': 'No, a tree hid it'}''
     (build_appeal_prompt followup_facts (get_combined_info (Some ''San Francisco'') ''CA'')
        angle_signage_issues example_signage_evidence) \<and>
   build_appeal_prompt quick_facts
     ((get_combined_info (Some ''San Francisco'') ''CA'')\<lparr>available_grounds := []\<rparr>)
     angle_signage_issues example_signage_evidence =
   build_appeal_prompt quick_facts (get_combined_info (Some ''San Francisco'') ''CA'')
     angle_signage_issues example_signage_evidence \<and>
   build_appeal_prompt quick_facts
     ((get_combined_info (Some ''San Francisco'') ''CA'')
        \<lparr>state := Some (state_CA\<lparr>appeal_address_format := ''P.O. Box 7''\<rparr>)\<rparr>)
     angle_signage_issues example_signage_evidence =
   build_appeal_prompt quick_facts (get_combined_info (Some ''San Francisco'') ''CA'')
     angle_signage_issues example_signage_evidence \<and>
   build_appeal_prompt quick_facts
     ((get_combined_info (Some ''San Francisco'') ''CA'')
        \<lparr>city := Some (city_San_Francisco\<lparr>fee_waiver_available := False\<rparr>)\<rparr>)
     angle_signage_issues example_signage_evidence =
   build_appeal_prompt quick_facts (get_combined_info (Some ''San Francisco'') ''CA'')
     angle_signage_issues example_signage_evidence"
proof -
  have k: "get_angle ''signage_issues'' = Some angle_signage_issues \<and>
     get_angle ''first_time_leniency'' = Some angle_first_time_leniency \<and>
     ''signage_issues'' \<noteq> ''first_time_leniency''"
    using get_angle_signage get_angle_first_time by simp
  have f: "(''citation_number'', PStr ''A1'') \<in> set quick_facts" "truthy (PStr ''A1'')"
    by (simp_all add: quick_facts_def)
  have d: "''CVC 40215 - Notice of parking violation must be securely attached''
      \<in> set (common_defenses state_CA)"
    by (simp add: state_CA_def)
  have r: "''Street cleaning violations - check SFMTA calendar''
      \<in> set (specific_rules city_San_Francisco)"
    by (simp add: city_San_Francisco_def)
  note t = batch_requests [where gen = recording_generation and g = "[]" and cd = quick_facts
      and li = "get_combined_info (Some ''San Francisco'') ''CA''"
      and ev = example_signage_evidence and a = angle_signage_issues
      and k = "''signage_issues''"
      and ka = "''signage_issues''" and aa = angle_signage_issues
      and kb = "''first_time_leniency''" and ab = angle_first_time_leniency
      and s = state_CA and c = city_San_Francisco and ks = "[]"
      and grounds = "[]" and fmt = "''P.O. Box 7''" and waiver = False]
  note u = batch_requests [where gen = recording_generation and g = "[]"
      and cd = followup_facts
      and li = "get_combined_info (Some ''San Francisco'') ''CA''"
      and ev = example_signage_evidence and a = angle_signage_issues
      and ks = "[]" and k = "''signage_issues''"
      and ka = "''signage_issues''" and aa = angle_signage_issues
      and kb = "''first_time_leniency''" and ab = angle_first_time_leniency
      and s = state_CA and c = city_San_Francisco
      and grounds = "[]" and fmt = "''P.O. Box 7''" and waiver = False]
  have q: "(''followup_q1'',
       PObj True ''{'question': 'Was the sign visible?', 'answer': 'No, a tree hid it'}'')
      \<in> set followup_facts"
      "truthy (PObj True ''{'question': 'Was the sign visible?', 'answer': 'No, a tree hid it'}'')"
    by (simp_all add: followup_facts_def)
  from u q have 6: "sublist (title (replace CHR ''_'' CHR '' '' ''followup_q1'') @ '': '' @
       str_of_val (PObj True ''{'question': 'Was the sign visible?', 'answer': 'No, a tree hid it'}''))
     (build_appeal_prompt followup_facts (get_combined_info (Some ''San Francisco'') ''CA'')
        angle_signage_issues example_signage_evidence)"
    by blast
  have w: "title (replace CHR ''_'' CHR '' '' ''followup_q1'') @ '': '' @
       str_of_val (PObj True ''{'question': 'Was the sign visible?', 'answer': 'No, a tree hid it'}'') =
     ''Followup Q1: {'question': 'Was the sign visible?', 'answer': 'No, a tree hid it'}''"
    by (simp add: title_def replace_def upper_char_def lower_char_def is_cased_def)
  from t have 7: "build_appeal_prompt quick_facts
     ((get_combined_info (Some ''San Francisco'') ''CA'')\<lparr>available_grounds := []\<rparr>)
     angle_signage_issues example_signage_evidence =
   build_appeal_prompt quick_facts (get_combined_info (Some ''San Francisco'') ''CA'')
     angle_signage_issues example_signage_evidence"
    by blast
  from t state_SF_CA have 8: "build_appeal_prompt quick_facts
     ((get_combined_info (Some ''San Francisco'') ''CA'')
        \<lparr>state := Some (state_CA\<lparr>appeal_address_format := ''P.O. Box 7''\<rparr>)\<rparr>)
     angle_signage_issues example_signage_evidence =
   build_appeal_prompt quick_facts (get_combined_info (Some ''San Francisco'') ''CA'')
     angle_signage_issues example_signage_evidence"
    by blast
  from t city_SF_CA have 9: "build_appeal_prompt quick_facts
     ((get_combined_info (Some ''San Francisco'') ''CA'')
        \<lparr>city := Some (city_San_Francisco\<lparr>fee_waiver_available := False\<rparr>)\<rparr>)
     angle_signage_issues example_signage_evidence =
   build_appeal_prompt quick_facts (get_combined_info (Some ''San Francisco'') ''CA'')
     angle_signage_issues example_signage_evidence"
    by blast
  from t get_angle_signage
  have 0: "generate_multi_angle_appeal recording_generation [] quick_facts
       (get_combined_info (Some ''San Francisco'') ''CA'')
       [''signage_issues'', ''signage_issues''] example_signage_evidence =
     ([(name angle_signage_issues,
        build_appeal_prompt quick_facts (get_combined_info (Some ''San Francisco'') ''CA'')
          angle_signage_issues example_signage_evidence)],
      [build_appeal_prompt quick_facts (get_combined_info (Some ''San Francisco'') ''CA'')
          angle_signage_issues example_signage_evidence,
       build_appeal_prompt quick_facts (get_combined_info (Some ''San Francisco'') ''CA'')
          angle_signage_issues example_signage_evidence])"
    by (simp add: single_recording)
  from t k have 1: "map fst (fst (generate_multi_angle_appeal recording_generation [] quick_facts
       (get_combined_info (Some ''San Francisco'') ''CA'')
       [''signage_issues'', ''first_time_leniency''] example_signage_evidence)) =
     [name angle_signage_issues, name angle_first_time_leniency]"
    by blast
  from t have 2: "sublist (name angle_signage_issues)
     (build_appeal_prompt quick_facts (get_combined_info (Some ''San Francisco'') ''CA'')
        angle_signage_issues example_signage_evidence)"
    by blast
  from t f have 3: "sublist (title (replace CHR ''_'' CHR '' '' ''citation_number'') @ '': '' @
       str_of_val (PStr ''A1''))
     (build_appeal_prompt quick_facts (get_combined_info (Some ''San Francisco'') ''CA'')
        angle_signage_issues example_signage_evidence)"
    by blast
  from t state_SF_CA d have 4: "sublist (st_name state_CA)
     (build_appeal_prompt quick_facts (get_combined_info (Some ''San Francisco'') ''CA'')
        angle_signage_issues example_signage_evidence) \<and>
     sublist (str_of_int (statute_limitations_days state_CA))
     (build_appeal_prompt quick_facts (get_combined_info (Some ''San Francisco'') ''CA'')
        angle_signage_issues example_signage_evidence) \<and>
     sublist ''CVC 40215 - Notice of parking violation must be securely attached''
     (build_appeal_prompt quick_facts (get_combined_info (Some ''San Francisco'') ''CA'')
        angle_signage_issues example_signage_evidence)"
    by blast
  from t city_SF_CA r have 5: "sublist ''Street cleaning violations - check SFMTA calendar''
     (build_appeal_prompt quick_facts (get_combined_info (Some ''San Francisco'') ''CA'')
        angle_signage_issues example_signage_evidence) \<and>
     sublist (''Online Appeal Available: '' @ str_of_bool (online_appeal city_San_Francisco))
     (build_appeal_prompt quick_facts (get_combined_info (Some ''San Francisco'') ''CA'')
        angle_signage_issues example_signage_evidence)"
    by blast
  have n: "name angle_signage_issues = ''Inadequate or Confusing Signage''"
      "name angle_first_time_leniency = ''First-Time Violation / Good Record''"
    by (simp_all add: angle_signage_issues_def angle_first_time_leniency_def)
  have s: "st_name state_CA = ''California''" "statute_limitations_days state_CA = 21"
    by (simp_all add: state_CA_def)
  have o: "''Online Appeal Available: '' @ str_of_bool (online_appeal city_San_Francisco) =
      ''Online Appeal Available: True''"
    by (simp add: city_San_Francisco_def str_of_bool_def)
  have c: "title (replace CHR ''_'' CHR '' '' ''citation_number'') @ '': '' @
       str_of_val (PStr ''A1'') = ''Citation Number: A1''"
    by (simp add: title_citation_number)
  from 0 1 2 3 4 5 6 7 8 9 show ?thesis
    unfolding n s o c w str_of_int_21 by blast
qed

text \<open>
  Claim C7 as stated has one request for every key and every non-empty jurisdiction field
  in the text. For a key that the catalog does not know the batch makes no request and
  returns no entry, and the request for a California citation does not contain
  California's appeal address format.
\<close>

theorem batch_requests_counterexample:
  "generate_multi_angle_appeal recording_generation [] quick_facts
     (get_combined_info None ''CA'') [''no_such_angle''] [] = ([], []) \<and>
   state (get_combined_info None ''CA'') = Some state_CA \<and>
   appeal_address_format state_CA = ''City parking authority or designated appeals board'' \<and>
   \<not> sublist ''City parking authority or designated appeals board''
       (build_appeal_prompt quick_facts (get_combined_info None ''CA'')
          angle_procedural_error [])"
proof -
  have 1: "generate_multi_angle_appeal recording_generation [] quick_facts
     (get_combined_info None ''CA'') [''no_such_angle''] [] = ([], [])"
    by (simp add: generate_multi_angle_appeal_def get_angle_def APPEAL_ANGLES_def)
  have 2: "appeal_address_format state_CA = ''City parking authority or designated appeals board''"
    by (simp add: state_CA_def)
  have 3: "\<not> sublist ''City parking authority or designated appeals board''
       (build_appeal_prompt quick_facts (get_combined_info None ''CA'')
          angle_procedural_error [])"
    by code_simp
  from 1 2 3 state_CA_info show ?thesis
    by blast
qed

end
